theory Spec2Isabelle
  imports Complex_Main
begin

section \<open>JavaScript values used by GlueTexture\<close>

subsection \<open>Numbers\<close>

text \<open>
  A JavaScript \<^verbatim>\<open>number\<close>, an IEEE 754 double: a finite value is the rational it denotes,
  and the two zeros, the two infinities and NaN are kept apart because \<^verbatim>\<open>/\<close> and the truth
  test of \<^verbatim>\<open>&&\<close> and \<^verbatim>\<open>||\<close> tell them apart. \<open>Finite 0\<close> is \<^verbatim>\<open>+0\<close>. Arithmetic rounds its
  exact result to the nearest double (\<open>roundToDouble\<close> below).
\<close>

datatype number = Finite rat | NegZero | PosInfinity | NegInfinity | NaN

text \<open>\<^verbatim>\<open>ToBoolean\<close> on a number: \<^verbatim>\<open>+0\<close>, \<^verbatim>\<open>-0\<close> and \<^verbatim>\<open>NaN\<close> are falsy.\<close>

fun truthy :: "number \<Rightarrow> bool" where
  "truthy (Finite r) = (r \<noteq> 0)"
| "truthy NegZero = False"
| "truthy PosInfinity = True"
| "truthy NegInfinity = True"
| "truthy NaN = False"

fun isZero :: "number \<Rightarrow> bool" where
  "isZero (Finite r) = (r = 0)"
| "isZero NegZero = True"
| "isZero PosInfinity = False"
| "isZero NegInfinity = False"
| "isZero NaN = False"

fun isInfinite :: "number \<Rightarrow> bool" where
  "isInfinite (Finite r) = False"
| "isInfinite NegZero = False"
| "isInfinite PosInfinity = True"
| "isInfinite NegInfinity = True"
| "isInfinite NaN = False"

text \<open>The sign bit.\<close>

fun isNegative :: "number \<Rightarrow> bool" where
  "isNegative (Finite r) = (r < 0)"
| "isNegative NegZero = True"
| "isNegative PosInfinity = False"
| "isNegative NegInfinity = True"
| "isNegative NaN = False"

fun magnitude :: "number \<Rightarrow> rat" where
  "magnitude (Finite r) = r"
| "magnitude NegZero = 0"
| "magnitude PosInfinity = 0"
| "magnitude NegInfinity = 0"
| "magnitude NaN = 0"

definition signedZero :: "bool \<Rightarrow> number" where
  "signedZero negative = (if negative then NegZero else Finite 0)"

definition signedInfinity :: "bool \<Rightarrow> number" where
  "signedInfinity negative = (if negative then NegInfinity else PosInfinity)"

text \<open>
  Rounding to binary64, to nearest with ties to even: 53 bits of significand, normal
  exponents from \<open>-1022\<close> to \<open>1023\<close>, subnormals in steps of \<open>2 ^ -1074\<close> below, a zero
  (with the sign of the exact value) on underflow and an infinity on overflow.
  \<open>ilog2 n\<close> is the position of the leading bit of \<open>n \<ge> 1\<close> and \<open>floorLog2 q\<close> the binary
  exponent of \<open>q > 0\<close>: \<open>pow2 (floorLog2 q) \<le> q < pow2 (floorLog2 q + 1)\<close>.
\<close>

function ilog2 :: "int \<Rightarrow> int" where
  "ilog2 n = (if n < 2 then 0 else ilog2 (n div 2) + 1)"
  by pat_completeness auto
termination
  by (relation "measure nat") auto

declare ilog2.simps [simp del]

definition pow2 :: "int \<Rightarrow> rat" where
  "pow2 e = (if 0 \<le> e then 2 ^ nat e else 1 / 2 ^ nat (- e))"

definition floorLog2 :: "rat \<Rightarrow> int" where
  "floorLog2 q =
     (if 1 \<le> q then ilog2 \<lfloor>q\<rfloor>
      else let l = ilog2 \<lfloor>1 / q\<rfloor>
           in if 1 \<le> q * pow2 l then - l else - l - 1)"

definition roundHalfEven :: "rat \<Rightarrow> int" where
  "roundHalfEven m =
     (let f = \<lfloor>m\<rfloor>; r = m - of_int f
      in if r < 1 / 2 then f else if 1 / 2 < r then f + 1 else if even f then f else f + 1)"

definition roundToDouble :: "rat \<Rightarrow> number" where
  "roundToDouble q =
     (if q = 0 then Finite 0
      else
        let k = max (floorLog2 \<bar>q\<bar>) (- 1022) - 52;
            n = roundHalfEven (\<bar>q\<bar> / pow2 k);
            r = of_int n * pow2 k
        in if pow2 1024 \<le> r then signedInfinity (q < 0)
           else if n = 0 then signedZero (q < 0)
           else Finite (if q < 0 then - r else r))"

text \<open>
  The operator \<^verbatim>\<open>a / b\<close>: NaN is contagious, \<^verbatim>\<open>0/0\<close> and \<^verbatim>\<open>Infinity/Infinity\<close> are NaN,
  a nonzero value over a zero is an infinity, the sign of a zero or an infinity is
  the product of the signs, and the quotient of two finite nonzero values is rounded.
\<close>

definition numberDiv :: "number \<Rightarrow> number \<Rightarrow> number" where
  "numberDiv a b =
     (if a = NaN \<or> b = NaN then NaN
      else if isInfinite a then
        (if isInfinite b then NaN else signedInfinity (isNegative a \<noteq> isNegative b))
      else if isInfinite b then signedZero (isNegative a \<noteq> isNegative b)
      else if isZero b then
        (if isZero a then NaN else signedInfinity (isNegative a \<noteq> isNegative b))
      else if isZero a then signedZero (isNegative a \<noteq> isNegative b)
      else roundToDouble (magnitude a / magnitude b))"

subsection \<open>Sources (GlueUtils.ts)\<close>

text \<open>
  \<^verbatim>\<open>GlueSourceType = HTMLImageElement | HTMLVideoElement | HTMLCanvasElement\<close>, with the
  DOM attributes the code reads (all of them unsigned integers or a boolean).
  \<open>OtherObject\<close> is an object of no such class, which the declared type excludes and the
  run-time tests (\<^verbatim>\<open>instanceof\<close>) still have a branch for. A parameter of type
  \<open>GlueSourceType option\<close> is \<open>None\<close> for \<^verbatim>\<open>null\<close> or \<^verbatim>\<open>undefined\<close>.
\<close>

datatype GlueSourceType =
    HTMLImageElement bool nat nat      \<comment> \<open>complete, naturalWidth, naturalHeight\<close>
  | HTMLVideoElement nat nat nat       \<comment> \<open>readyState, videoWidth, videoHeight\<close>
  | HTMLCanvasElement nat nat          \<comment> \<open>width, height\<close>
  | OtherObject

datatype error =
    SourceNotReady             \<comment> \<open>\<^verbatim>\<open>Source is not loaded.\<close>\<close>
  | UnsupportedSourceType      \<comment> \<open>\<^verbatim>\<open>Unable to get source dimensions.\<close>\<close>
  | Disposed                   \<comment> \<open>\<^verbatim>\<open>This GlueTexture object has been disposed.\<close>\<close>
  | DuplicateName string       \<comment> \<open>\<^verbatim>\<open>A program with this name already exists: \<close> + name\<close>
  | InvalidBlendMode           \<comment> \<open>\<^verbatim>\<open>Invalid blend mode.\<close>\<close>
  | NotAProgram string         \<comment> \<open>a member inherited from \<^verbatim>\<open>Object.prototype\<close> used as a GlueProgram\<close>

fun glueIsSourceLoaded :: "GlueSourceType option \<Rightarrow> bool" where
  "glueIsSourceLoaded None = False"
| "glueIsSourceLoaded (Some (HTMLImageElement isComplete naturalWidth naturalHeight)) =
     (isComplete \<and> naturalHeight > 0)"
| "glueIsSourceLoaded (Some (HTMLVideoElement readyState videoWidth videoHeight)) =
     (readyState > 2)"
| "glueIsSourceLoaded (Some (HTMLCanvasElement width height)) = True"
| "glueIsSourceLoaded (Some OtherObject) = True"

fun glueGetSourceDimensions :: "GlueSourceType option \<Rightarrow> error + number \<times> number" where
  "glueGetSourceDimensions (Some (HTMLImageElement isComplete naturalWidth naturalHeight)) =
     Inr (Finite (of_nat naturalWidth), Finite (of_nat naturalHeight))"
| "glueGetSourceDimensions (Some (HTMLVideoElement readyState videoWidth videoHeight)) =
     Inr (Finite (of_nat videoWidth), Finite (of_nat videoHeight))"
| "glueGetSourceDimensions (Some (HTMLCanvasElement width height)) =
     Inr (Finite (of_nat width), Finite (of_nat height))"
| "glueGetSourceDimensions (Some OtherObject) = Inl UnsupportedSourceType"
| "glueGetSourceDimensions None = Inl UnsupportedSourceType"

subsection \<open>Collaborators that are not part of the texture\<close>

text \<open>
  What GlueTexture.ts imports from GlueShaderSources.ts, taken as a parameter:
  \<open>blendModeValues\<close> is \<^verbatim>\<open>Object.values(GlueBlendMode)\<close> as strings, in order,
  \<open>NORMAL\<close> is \<^verbatim>\<open>GlueBlendMode.NORMAL\<close>, and \<open>blendFragmentShaders m\<close> is the value of
  \<^verbatim>\<open>blendFragmentShaders[m]\<close> (\<open>None\<close> for \<^verbatim>\<open>undefined\<close>).
\<close>

record GlueShaderSources =
  defaultFragmentShader :: string
  defaultVertexShader :: string
  blendModeValues :: "string list"
  NORMAL :: string
  blendFragmentShaders :: "string \<Rightarrow> string option"

text \<open>
  Modelled from the spec: the class GlueProgram (GlueProgram.ts), which is compiled from
  ``(fragmentSource, vertexSource, importTable)'' into ``an object supporting
  apply(uniformMap, mask?)''. A program is the three arguments its constructor got from
  \<^verbatim>\<open>registerProgram\<close>; its \<^verbatim>\<open>apply\<close> and \<^verbatim>\<open>dispose\<close> are recorded as calls (below).
\<close>

record GlueProgram =
  fragmentShader :: string
  vertexShader :: string
  importTable :: "string \<Rightarrow> string option"

text \<open>The uniforms \<^verbatim>\<open>draw\<close> hands to \<^verbatim>\<open>apply\<close>, and the mask (\<^verbatim>\<open>string | GlueSourceType\<close>).\<close>

record uniforms =
  iImage :: nat
  iSize :: "number \<times> number"
  iOffset :: "number \<times> number"
  iOpacity :: number

datatype mask = MaskName string | MaskSource GlueSourceType

type_synonym WebGLTexture = nat

text \<open>
  The calls a texture makes on its collaborators, oldest first: on \<^verbatim>\<open>glue\<close>
  (\<^verbatim>\<open>_createTexture(target)\<close>, with the handle it returned), on \<^verbatim>\<open>gl\<close>, and on its programs.
\<close>

datatype call =
    CreateTexture number WebGLTexture
  | PixelStoreiFlipY bool
  | TexImage2D "GlueSourceType option"
  | ActiveTexture number
  | BindTexture "WebGLTexture option"
  | DeleteTexture "WebGLTexture option"
  | Apply GlueProgram "uniforms option" "mask option"
  | DisposeProgram GlueProgram

definition TEXTURE0 :: nat where
  "TEXTURE0 = 33984"

definition TEXTURE1 :: nat where
  "TEXTURE1 = 33985"

section \<open>GlueTexture (GlueTexture.ts)\<close>

text \<open>
  The private fields of the class, and \<open>calls\<close> for the effects on \<^verbatim>\<open>gl\<close> and \<^verbatim>\<open>glue\<close>.
  \<open>priv_width\<close>, \<open>priv_height\<close> and \<open>priv_texture\<close> are assigned at the end of the
  constructor; until then they are \<^verbatim>\<open>undefined\<close> (\<open>NaN\<close> as a number, \<open>None\<close> as a handle),
  and nothing reads them.
\<close>

record GlueTexture =
  priv_width :: number
  priv_height :: number
  priv_disposed :: bool
  priv_texture :: "WebGLTexture option"
  priv_programs :: "string \<Rightarrow> GlueProgram option"
  priv_imports :: "string \<Rightarrow> string option"
  priv_source :: "GlueSourceType option"
  calls :: "call list"

text \<open>
  \<^verbatim>\<open>_programs\<close> and \<^verbatim>\<open>_imports\<close> are object literals \<^verbatim>\<open>{}\<close>: reading \<^verbatim>\<open>obj[name]\<close> finds an own
  property first and a member of \<^verbatim>\<open>Object.prototype\<close> otherwise. These are the names every
  object inherits; each of them is truthy.
\<close>

definition objectPrototypeKeys :: "string list" where
  "objectPrototypeKeys =
     [''constructor'', ''__defineGetter__'', ''__defineSetter__'', ''hasOwnProperty'',
      ''__lookupGetter__'', ''__lookupSetter__'', ''isPrototypeOf'',
      ''propertyIsEnumerable'', ''toString'', ''valueOf'', ''__proto__'',
      ''toLocaleString'']"

datatype property = Undefined | Program GlueProgram | Inherited string

text \<open>The expression \<^verbatim>\<open>this._programs[name]\<close>.\<close>

definition programsAt :: "GlueTexture \<Rightarrow> string \<Rightarrow> property" where
  "programsAt t name =
     (case priv_programs t name of
        Some p \<Rightarrow> Program p
      | None \<Rightarrow> if name \<in> set objectPrototypeKeys then Inherited name else Undefined)"

text \<open>
  The assignment \<^verbatim>\<open>this._imports[name] = source\<close> with a string on the right: it writes an
  own property, except that \<^verbatim>\<open>__proto__\<close> on an object without such an own property is the
  inherited setter, which ignores a string.
\<close>

definition assignImport ::
  "(string \<Rightarrow> string option) \<Rightarrow> string \<Rightarrow> string \<Rightarrow> (string \<Rightarrow> string option)" where
  "assignImport table name source =
     (if name = ''__proto__'' \<and> table name = None then table else table(name \<mapsto> source))"

definition checkDisposed :: "GlueTexture \<Rightarrow> error + unit" where
  "checkDisposed t = (if priv_disposed t then Inl Disposed else Inr ())"

text \<open>\<^verbatim>\<open>shader || fallback\<close>: \<^verbatim>\<open>undefined\<close> and the empty string are falsy.\<close>

definition orDefault :: "string option \<Rightarrow> string \<Rightarrow> string" where
  "orDefault shader fallback =
     (case shader of None \<Rightarrow> fallback | Some s \<Rightarrow> if s = [] then fallback else s)"

text \<open>
  Every method returns what it returned or threw, and the texture as the call left it
  (also when it threw).
\<close>

definition registerProgram ::
  "GlueShaderSources \<Rightarrow> GlueTexture \<Rightarrow> string \<Rightarrow> string option \<Rightarrow> string option
     \<Rightarrow> (error + GlueProgram) \<times> GlueTexture" where
  "registerProgram env t name fragment vertex =
     (case checkDisposed t of
        Inl e \<Rightarrow> (Inl e, t)
      | Inr _ \<Rightarrow>
          if programsAt t name \<noteq> Undefined then (Inl (DuplicateName name), t)
          else
            let created = \<lparr>fragmentShader = orDefault fragment (defaultFragmentShader env),
                           vertexShader = orDefault vertex (defaultVertexShader env),
                           importTable = priv_imports t\<rparr>
            in (Inr created, t\<lparr>priv_programs := (priv_programs t)(name \<mapsto> created)\<rparr>))"

definition deregisterProgram :: "GlueTexture \<Rightarrow> string \<Rightarrow> (error + unit) \<times> GlueTexture" where
  "deregisterProgram t name =
     (case checkDisposed t of
        Inl e \<Rightarrow> (Inl e, t)
      | Inr _ \<Rightarrow>
          (case programsAt t name of
             Undefined \<Rightarrow> (Inr (), t\<lparr>priv_programs := (priv_programs t)(name := None)\<rparr>)
           | Program p \<Rightarrow>
               (Inr (), t\<lparr>priv_programs := (priv_programs t)(name := None),
                          calls := calls t @ [DisposeProgram p]\<rparr>)
           | Inherited k \<Rightarrow> (Inl (NotAProgram k), t)))"

definition hasProgram :: "GlueTexture \<Rightarrow> string \<Rightarrow> (error + bool) \<times> GlueTexture" where
  "hasProgram t name = (Inr (programsAt t name \<noteq> Undefined), t)"

definition program :: "GlueTexture \<Rightarrow> string \<Rightarrow> (error + property) \<times> GlueTexture" where
  "program t name =
     (case checkDisposed t of
        Inl e \<Rightarrow> (Inl e, t)
      | Inr _ \<Rightarrow> (Inr (programsAt t name), t))"

definition use :: "GlueTexture \<Rightarrow> number option \<Rightarrow> (error + unit) \<times> GlueTexture" where
  "use t target =
     (case checkDisposed t of
        Inl e \<Rightarrow> (Inl e, t)
      | Inr _ \<Rightarrow>
          (Inr (), t\<lparr>calls := calls t @
             [ActiveTexture (case target of
                               None \<Rightarrow> Finite (of_nat TEXTURE1)
                             | Some n \<Rightarrow> if truthy n then n else Finite (of_nat TEXTURE1)),
              BindTexture (priv_texture t)]\<rparr>))"

definition registerImport ::
  "GlueTexture \<Rightarrow> string \<Rightarrow> string \<Rightarrow> (error + unit) \<times> GlueTexture" where
  "registerImport t name source =
     (case checkDisposed t of
        Inl e \<Rightarrow> (Inl e, t)
      | Inr _ \<Rightarrow> (Inr (), t\<lparr>priv_imports := assignImport (priv_imports t) name source\<rparr>))"

definition deregisterImport :: "GlueTexture \<Rightarrow> string \<Rightarrow> (error + unit) \<times> GlueTexture" where
  "deregisterImport t name =
     (case checkDisposed t of
        Inl e \<Rightarrow> (Inl e, t)
      | Inr _ \<Rightarrow> (Inr (), t\<lparr>priv_imports := (priv_imports t)(name := None)\<rparr>))"

definition dispose :: "GlueTexture \<Rightarrow> (error + unit) \<times> GlueTexture" where
  "dispose t = (Inr (), t\<lparr>calls := calls t @ [DeleteTexture (priv_texture t)]\<rparr>)"

text \<open>
  The second half of \<^verbatim>\<open>update\<close>: the texture is bound to \<^verbatim>\<open>TEXTURE1\<close> and the pixels of
  \<^verbatim>\<open>this._source\<close> are uploaded again.
\<close>

definition reupload :: "GlueTexture \<Rightarrow> (error + unit) \<times> GlueTexture" where
  "reupload t =
     (Inr (), t\<lparr>calls := calls t @
        [ActiveTexture (Finite (of_nat TEXTURE1)), BindTexture (priv_texture t),
         PixelStoreiFlipY True, TexImage2D (priv_source t)]\<rparr>)"

definition update :: "GlueTexture \<Rightarrow> GlueSourceType option \<Rightarrow> (error + unit) \<times> GlueTexture" where
  "update t source =
     (case checkDisposed t of
        Inl e \<Rightarrow> (Inl e, t)
      | Inr _ \<Rightarrow>
          (case source of
             None \<Rightarrow> reupload t
           | Some s \<Rightarrow>
               if \<not> glueIsSourceLoaded source then (Inl SourceNotReady, t)
               else (case glueGetSourceDimensions source of
                       Inl e \<Rightarrow> (Inl e, t)
                     | Inr (width, height) \<Rightarrow>
                         reupload (t\<lparr>priv_width := width, priv_height := height,
                                     priv_source := source\<rparr>))))"

text \<open>
  The argument of \<^verbatim>\<open>draw\<close>: every field is optional (\<open>None\<close> for \<^verbatim>\<open>undefined\<close>), and the
  destructuring pattern of the method supplies the defaults.
\<close>

record GlueTextureDrawOptions =
  optX :: "number option"
  optY :: "number option"
  optWidth :: "number option"
  optHeight :: "number option"
  optOpacity :: "number option"
  optMode :: "string option"
  optMask :: "mask option"

definition orElse :: "'a option \<Rightarrow> 'a \<Rightarrow> 'a" where
  "orElse v d = (case v of None \<Rightarrow> d | Some a \<Rightarrow> a)"

definition draw ::
  "GlueShaderSources \<Rightarrow> GlueTexture \<Rightarrow> GlueTextureDrawOptions \<Rightarrow> (error + unit) \<times> GlueTexture" where
  "draw env t options =
     (let x = orElse (optX options) (Finite 0);
          y = orElse (optY options) (Finite 0);
          opacity = orElse (optOpacity options) (Finite 1);
          mode = orElse (optMode options) (NORMAL env)
      in case use t None of
           (Inl e, t1) \<Rightarrow> (Inl e, t1)
         | (Inr _, t1) \<Rightarrow>
             let size = (case (optWidth options, optHeight options) of
                           (Some width, Some height) \<Rightarrow>
                             if truthy width \<and> truthy height then (width, height)
                             else (priv_width t1, priv_height t1)
                         | _ \<Rightarrow> (priv_width t1, priv_height t1))
             in case program t1 (''~blend_'' @ mode) of
                  (Inl e, t2) \<Rightarrow> (Inl e, t2)
                | (Inr Undefined, t2) \<Rightarrow> (Inl InvalidBlendMode, t2)
                | (Inr (Inherited k), t2) \<Rightarrow> (Inl (NotAProgram k), t2)
                | (Inr (Program blendProgram), t2) \<Rightarrow>
                    (Inr (), t2\<lparr>calls := calls t2 @
                       [Apply blendProgram
                          (Some \<lparr>iImage = 1, iSize = size,
                                 iOffset = (numberDiv x (priv_width t2),
                                            numberDiv y (priv_height t2)),
                                 iOpacity = opacity\<rparr>)
                          (optMask options)]\<rparr>))"

text \<open>The loop of the constructor over \<^verbatim>\<open>Object.values(GlueBlendMode)\<close>.\<close>

fun registerBlendPrograms ::
  "GlueShaderSources \<Rightarrow> GlueTexture \<Rightarrow> string list \<Rightarrow> (error + unit) \<times> GlueTexture" where
  "registerBlendPrograms env t [] = (Inr (), t)"
| "registerBlendPrograms env t (mode # modes) =
     (case registerProgram env t (''~blend_'' @ mode) (blendFragmentShaders env mode) None of
        (Inl e, t1) \<Rightarrow> (Inl e, t1)
      | (Inr _, t1) \<Rightarrow> registerBlendPrograms env t1 modes)"

text \<open>
  \<^verbatim>\<open>new GlueTexture(gl, glue, source)\<close>, where \<open>texture\<close> is the handle
  \<^verbatim>\<open>glue._createTexture(gl.TEXTURE1)\<close> returns. A constructor that throws gives no object.
\<close>

definition new_GlueTexture ::
  "GlueShaderSources \<Rightarrow> WebGLTexture \<Rightarrow> GlueSourceType option \<Rightarrow> error + GlueTexture" where
  "new_GlueTexture env texture source =
     (if \<not> glueIsSourceLoaded source then Inl SourceNotReady
      else
        let this0 = \<lparr>priv_width = NaN, priv_height = NaN, priv_disposed = False,
                     priv_texture = None, priv_programs = Map.empty,
                     priv_imports = Map.empty, priv_source = source,
                     calls = [CreateTexture (Finite (of_nat TEXTURE1)) texture,
                              PixelStoreiFlipY True, TexImage2D source]\<rparr>
        in case registerProgram env this0 ''~default'' None None of
             (Inl e, this1) \<Rightarrow> Inl e
           | (Inr _, this1) \<Rightarrow>
               (case registerBlendPrograms env this1 (blendModeValues env) of
                  (Inl e, this2) \<Rightarrow> Inl e
                | (Inr _, this2) \<Rightarrow>
                    (case glueGetSourceDimensions source of
                       Inl e \<Rightarrow> Inl e
                     | Inr (width, height) \<Rightarrow>
                         let this3 = this2\<lparr>priv_texture := Some texture,
                                           priv_width := width, priv_height := height\<rparr>
                         in case program this3 ''~default'' of
                              (Inl e, this4) \<Rightarrow> Inl e
                            | (Inr Undefined, this4) \<Rightarrow> Inr this4
                            | (Inr (Inherited k), this4) \<Rightarrow> Inl (NotAProgram k)
                            | (Inr (Program p), this4) \<Rightarrow>
                                Inr (this4\<lparr>calls := calls this4 @ [Apply p None None]\<rparr>))))"

text \<open>
  The textures a caller can hold: what the constructor returned, after any number of
  calls of the public methods (whether they returned or threw). \<^verbatim>\<open>hasProgram\<close> and
  \<^verbatim>\<open>program\<close> are not listed: they leave the texture as it is.
\<close>

inductive reachable :: "GlueShaderSources \<Rightarrow> GlueTexture \<Rightarrow> bool" for env where
  constructed: "new_GlueTexture env texture source = Inr t \<Longrightarrow> reachable env t"
| after_draw: "reachable env t \<Longrightarrow> reachable env (snd (draw env t options))"
| after_update: "reachable env t \<Longrightarrow> reachable env (snd (update t source))"
| after_registerProgram:
    "reachable env t \<Longrightarrow> reachable env (snd (registerProgram env t name fragment vertex))"
| after_deregisterProgram: "reachable env t \<Longrightarrow> reachable env (snd (deregisterProgram t name))"
| after_use: "reachable env t \<Longrightarrow> reachable env (snd (use t target))"
| after_registerImport: "reachable env t \<Longrightarrow> reachable env (snd (registerImport t name src))"
| after_deregisterImport: "reachable env t \<Longrightarrow> reachable env (snd (deregisterImport t name))"
| after_dispose: "reachable env t \<Longrightarrow> reachable env (snd (dispose t))"

text \<open>
  A session for the examples: three blend modes, and a texture of a 200 by 100 canvas.
\<close>

definition exampleSources :: GlueShaderSources where
  "exampleSources =
     \<lparr>defaultFragmentShader = ''fragment'', defaultVertexShader = ''vertex'',
      blendModeValues = [''normal'', ''multiply'', ''screen''], NORMAL = ''normal'',
      blendFragmentShaders = (\<lambda>m. if m \<in> set [''normal'', ''multiply'', ''screen'']
                                   then Some (''blend '' @ m) else None)\<rparr>"

definition exampleProgram :: "string \<Rightarrow> GlueProgram" where
  "exampleProgram fragment =
     \<lparr>fragmentShader = fragment, vertexShader = ''vertex'', importTable = Map.empty\<rparr>"

definition exampleTexture :: GlueTexture where
  "exampleTexture =
     \<lparr>priv_width = Finite 200, priv_height = Finite 100, priv_disposed = False,
      priv_texture = Some 7,
      priv_programs =
        [''~default'' \<mapsto> exampleProgram ''fragment'',
         ''~blend_normal'' \<mapsto> exampleProgram ''blend normal'',
         ''~blend_multiply'' \<mapsto> exampleProgram ''blend multiply'',
         ''~blend_screen'' \<mapsto> exampleProgram ''blend screen''],
      priv_imports = Map.empty,
      priv_source = Some (HTMLCanvasElement 200 100),
      calls = [CreateTexture (Finite (of_nat TEXTURE1)) 7, PixelStoreiFlipY True,
               TexImage2D (Some (HTMLCanvasElement 200 100)),
               Apply (exampleProgram ''fragment'') None None]\<rparr>"

section \<open>Properties\<close>

subsection \<open>Auxiliary facts\<close>

lemma new_exampleTexture:
  "new_GlueTexture exampleSources 7 (Some (HTMLCanvasElement 200 100)) = Inr exampleTexture"
  by (simp add: new_GlueTexture_def exampleSources_def exampleTexture_def exampleProgram_def
      registerProgram_def checkDisposed_def programsAt_def objectPrototypeKeys_def
      orDefault_def program_def Let_def)

lemma blend_name_not_inherited: "''~blend_'' @ mode \<notin> set objectPrototypeKeys"
  by (simp add: objectPrototypeKeys_def)

lemma default_name_not_inherited: "''~default'' \<notin> set objectPrototypeKeys"
  by (simp add: objectPrototypeKeys_def)

lemma programsAt_blend:
  "programsAt t (''~blend_'' @ mode) =
     (case priv_programs t (''~blend_'' @ mode) of None \<Rightarrow> Undefined | Some p \<Rightarrow> Program p)"
  using blend_name_not_inherited [of mode] by (simp add: programsAt_def split: option.splits)

lemma disposed_registerProgram:
  "priv_disposed (snd (registerProgram env t name fragment vertex)) = priv_disposed t"
  by (simp add: registerProgram_def checkDisposed_def Let_def)

lemma disposed_deregisterProgram:
  "priv_disposed (snd (deregisterProgram t name)) = priv_disposed t"
  by (simp add: deregisterProgram_def checkDisposed_def split: property.splits)

lemma disposed_use: "priv_disposed (snd (use t target)) = priv_disposed t"
  by (simp add: use_def checkDisposed_def)

lemma disposed_registerImport: "priv_disposed (snd (registerImport t name src)) = priv_disposed t"
  by (simp add: registerImport_def checkDisposed_def)

lemma disposed_deregisterImport: "priv_disposed (snd (deregisterImport t name)) = priv_disposed t"
  by (simp add: deregisterImport_def checkDisposed_def)

lemma disposed_dispose: "priv_disposed (snd (dispose t)) = priv_disposed t"
  by (simp add: dispose_def)

lemma disposed_update: "priv_disposed (snd (update t source)) = priv_disposed t"
  by (auto simp: update_def reupload_def checkDisposed_def
      split: option.splits sum.splits prod.splits)

lemma disposed_draw: "priv_disposed (snd (draw env t options)) = priv_disposed t"
  by (simp add: draw_def use_def program_def checkDisposed_def Let_def
      split: property.splits)

lemma disposed_registerBlendPrograms:
  "priv_disposed (snd (registerBlendPrograms env t modes)) = priv_disposed t"
proof (induction modes arbitrary: t)
  case Nil
  show ?case by simp
next
  case (Cons mode modes)
  show ?case
  proof (cases "registerProgram env t (''~blend_'' @ mode) (blendFragmentShaders env mode) None")
    case (Pair r t1)
    have "priv_disposed t1 = priv_disposed t"
      using disposed_registerProgram [of env t "''~blend_'' @ mode" "blendFragmentShaders env mode" None]
      unfolding Pair by simp
    then show ?thesis
      using Cons.IH [of t1] unfolding registerBlendPrograms.simps Pair by (cases r) simp_all
  qed
qed

lemma disposed_new_GlueTexture:
  assumes "new_GlueTexture env texture source = Inr t"
  shows "\<not> priv_disposed t"
proof -
  define this0 where "this0 = \<lparr>priv_width = NaN, priv_height = NaN, priv_disposed = False,
                     priv_texture = None, priv_programs = Map.empty,
                     priv_imports = Map.empty, priv_source = source,
                     calls = [CreateTexture (Finite (of_nat TEXTURE1)) texture,
                              PixelStoreiFlipY True, TexImage2D source]\<rparr>"
  obtain r1 this1 where r1: "registerProgram env this0 ''~default'' None None = (r1, this1)"
    by (cases "registerProgram env this0 ''~default'' None None")
  obtain r2 this2 where r2: "registerBlendPrograms env this1 (blendModeValues env) = (r2, this2)"
    by (cases "registerBlendPrograms env this1 (blendModeValues env)")
  have d1: "\<not> priv_disposed this1"
    using disposed_registerProgram [of env this0 "''~default''" None None]
    unfolding r1 by (simp add: this0_def)
  have d2: "\<not> priv_disposed this2"
    using disposed_registerBlendPrograms [of env this1 "blendModeValues env"] d1
    unfolding r2 by simp
  from assms d2 show ?thesis
    unfolding new_GlueTexture_def Let_def this0_def [symmetric] r1 r2
    by (auto simp: program_def checkDisposed_def
        split: if_splits sum.splits prod.splits property.splits)
qed

lemma reachable_not_disposed: "reachable env t \<Longrightarrow> \<not> priv_disposed t"
  by (induction rule: reachable.induct)
    (simp_all add: disposed_new_GlueTexture disposed_draw disposed_update
      disposed_registerProgram disposed_deregisterProgram disposed_use
      disposed_registerImport disposed_deregisterImport disposed_dispose)

lemmas example_defs = exampleSources_def exampleTexture_def exampleProgram_def
lemmas method_defs = registerProgram_def deregisterProgram_def hasProgram_def program_def
  use_def registerImport_def deregisterImport_def dispose_def reupload_def update_def draw_def
  checkDisposed_def programsAt_def orDefault_def orElse_def assignImport_def Let_def

lemma glueGetSourceDimensions_error:
  "glueGetSourceDimensions source = Inl e \<Longrightarrow> e = UnsupportedSourceType"
  by (erule glueGetSourceDimensions.elims) simp_all

subsection \<open>The division operator\<close>

text \<open>
  \<open>floorLog2\<close> is the binary exponent, and \<open>roundToDouble\<close> returns a double (an integer
  of magnitude at most \<open>2 ^ 53\<close> times a power of two no smaller than \<open>2 ^ -1074\<close>, below
  \<open>2 ^ 1024\<close>) that is within half a unit in the last place of the exact value.
\<close>

lemma pow2_powi: "pow2 e = 2 powi e"
  by (simp add: pow2_def power_int_def inverse_eq_divide power_one_over)

lemma pow2_pos: "0 < pow2 e"
  by (simp add: pow2_powi)

lemma pow2_Suc: "pow2 (e + 1) = 2 * pow2 e"
  by (simp add: pow2_powi power_int_add)

lemma pow2_less_iff: "pow2 a < pow2 b \<longleftrightarrow> a < b"
proof
  assume less: "pow2 a < pow2 b"
  show "a < b"
  proof (rule ccontr)
    assume "\<not> a < b"
    then have "b \<le> a" by simp
    then have "pow2 b \<le> pow2 a"
      unfolding pow2_powi by (rule power_int_increasing) simp
    with less show False by simp
  qed
next
  assume "a < b"
  then show "pow2 a < pow2 b"
    unfolding pow2_powi by (rule power_int_strict_increasing) simp
qed

lemma pow2_le_iff: "pow2 a \<le> pow2 b \<longleftrightarrow> a \<le> b"
  using pow2_less_iff [of b a] by auto

lemma pow2_nat: "0 \<le> e \<Longrightarrow> pow2 e = of_int (2 ^ nat e)"
  by (simp add: pow2_def)

lemma pow2_neg: "pow2 (- e) = 1 / pow2 e"
  by (simp add: pow2_powi power_int_minus inverse_eq_divide)

lemma ilog2_bounds:
  "1 \<le> n \<Longrightarrow> 0 \<le> ilog2 n \<and> 2 ^ nat (ilog2 n) \<le> n \<and> n < 2 ^ nat (ilog2 n + 1)"
proof (induction n rule: ilog2.induct)
  case (1 n)
  show ?case
  proof (cases "n < 2")
    case True
    with "1.prems" have "n = 1" by simp
    then show ?thesis by (simp add: ilog2.simps)
  next
    case False
    then have half: "1 \<le> n div 2" by simp
    from "1.IH" [OF False half]
    have ih: "0 \<le> ilog2 (n div 2)" "2 ^ nat (ilog2 (n div 2)) \<le> n div 2"
      "n div 2 < 2 ^ nat (ilog2 (n div 2) + 1)"
      by simp_all
    have eq: "ilog2 n = ilog2 (n div 2) + 1"
      using False by (subst ilog2.simps) simp
    have step: "nat (ilog2 (n div 2) + 1) = Suc (nat (ilog2 (n div 2)))"
      using ih(1) by simp
    have lower: "(2::int) ^ nat (ilog2 n) \<le> n"
      using ih(2) unfolding eq step by simp
    have upper: "n < 2 ^ nat (ilog2 n + 1)"
    proof -
      have "n div 2 + 1 \<le> 2 ^ Suc (nat (ilog2 (n div 2)))"
        using ih(3) unfolding step by simp
      then have "n < 2 * 2 ^ Suc (nat (ilog2 (n div 2)))" by linarith
      moreover have "nat (ilog2 n + 1) = Suc (Suc (nat (ilog2 (n div 2))))"
        using ih(1) unfolding eq by simp
      ultimately show ?thesis by simp
    qed
    show ?thesis using ih(1) lower upper unfolding eq by simp
  qed
qed

lemma floorLog2_bounds:
  assumes "0 < q"
  shows "pow2 (floorLog2 q) \<le> q \<and> q < pow2 (floorLog2 q + 1)"
proof (cases "1 \<le> q")
  case True
  define n where "n = \<lfloor>q\<rfloor>"
  have n1: "1 \<le> n" unfolding n_def using True by simp
  note b = ilog2_bounds [OF n1]
  have fl: "floorLog2 q = ilog2 n"
    using True by (simp add: floorLog2_def n_def)
  have "of_int (2 ^ nat (ilog2 n)) \<le> (of_int n :: rat)"
    using b by (simp only: of_int_le_iff)
  also have "of_int n \<le> q" unfolding n_def by simp
  finally have lower: "pow2 (ilog2 n) \<le> q"
    using b by (simp add: pow2_nat)
  have "n + 1 \<le> 2 ^ nat (ilog2 n + 1)" using b by simp
  then have "(of_int (n + 1) :: rat) \<le> of_int (2 ^ nat (ilog2 n + 1))"
    by (simp only: of_int_le_iff)
  moreover have "q < of_int (n + 1)" unfolding n_def by linarith
  ultimately have upper: "q < pow2 (ilog2 n + 1)"
    using b by (simp add: pow2_nat)
  show ?thesis unfolding fl using lower upper by simp
next
  case False
  define n where "n = \<lfloor>1 / q\<rfloor>"
  define l where "l = ilog2 n"
  have "1 < 1 / q" using False assms by simp
  then have n1: "1 \<le> n" unfolding n_def by simp
  note b = ilog2_bounds [OF n1]
  have l0: "0 \<le> l" unfolding l_def using b by simp
  have "of_int (2 ^ nat l) \<le> (of_int n :: rat)"
    using b unfolding l_def by (simp only: of_int_le_iff)
  also have "of_int n \<le> 1 / q" unfolding n_def by simp
  finally have "pow2 l \<le> 1 / q" using l0 by (simp add: pow2_nat)
  then have le: "q * pow2 l \<le> 1"
    using assms by (simp add: field_simps)
  have "n + 1 \<le> 2 ^ nat (l + 1)" using b unfolding l_def by simp
  then have "(of_int (n + 1) :: rat) \<le> of_int (2 ^ nat (l + 1))"
    by (simp only: of_int_le_iff)
  moreover have "1 / q < of_int (n + 1)" unfolding n_def by linarith
  ultimately have "1 / q < pow2 (l + 1)" using l0 by (simp add: pow2_nat)
  then have gt: "1 < q * pow2 (l + 1)"
    using assms by (simp add: field_simps)
  have fl: "floorLog2 q = (if 1 \<le> q * pow2 l then - l else - l - 1)"
    using False by (simp add: floorLog2_def n_def l_def Let_def)
  show ?thesis
  proof (cases "1 \<le> q * pow2 l")
    case True
    with le have eq: "q * pow2 l = 1" by simp
    have "q = pow2 (- l)"
      using eq pow2_pos [of l] by (simp add: pow2_neg field_simps)
    then show ?thesis
      unfolding fl using True by (simp add: pow2_less_iff)
  next
    case False
    then have lt: "q * pow2 l < 1" by simp
    have "q < pow2 (- l)"
      using lt pow2_pos [of l] by (simp add: pow2_neg field_simps)
    moreover have "pow2 (- l - 1) \<le> q"
    proof -
      have "- l - 1 = - (l + 1)" by simp
      then have eq: "pow2 (- l - 1) = 1 / pow2 (l + 1)" by (simp only: pow2_neg)
      have "1 / pow2 (l + 1) < q"
        using gt by (simp add: pos_divide_less_eq pow2_pos)
      then show ?thesis unfolding eq by simp
    qed
    ultimately show ?thesis
      unfolding fl using False by simp
  qed
qed

lemma floorLog2_unique:
  assumes "pow2 e \<le> q" and "q < pow2 (e + 1)"
  shows "floorLog2 q = e"
proof -
  have pos: "0 < q" using assms(1) pow2_pos [of e] by simp
  note b = floorLog2_bounds [OF pos]
  have "pow2 e < pow2 (floorLog2 q + 1)" using assms(1) b by simp
  then have "e \<le> floorLog2 q" by (simp add: pow2_less_iff)
  moreover have "pow2 (floorLog2 q) < pow2 (e + 1)" using assms(2) b by simp
  then have "floorLog2 q \<le> e" by (simp add: pow2_less_iff)
  ultimately show ?thesis by simp
qed

lemma roundHalfEven_nearest: "\<bar>of_int (roundHalfEven m) - m\<bar> \<le> 1 / 2"
  unfolding roundHalfEven_def Let_def
  by (auto simp: abs_if) linarith+

lemma pow2_add: "pow2 (a + b) = pow2 a * pow2 b"
  by (simp add: pow2_powi power_int_add)

lemma roundToDouble_normal:
  assumes "pow2 e \<le> \<bar>q\<bar>" and "\<bar>q\<bar> < pow2 (e + 1)" and "- 1022 \<le> e" and "e \<le> 1022"
  shows "roundToDouble q =
           Finite ((if q < 0 then - 1 else 1)
                   * (of_int (roundHalfEven (\<bar>q\<bar> / pow2 (e - 52))) * pow2 (e - 52)))"
proof -
  define k where "k = e - 52"
  define m where "m = \<bar>q\<bar> / pow2 k"
  define n where "n = roundHalfEven m"
  have q0: "q \<noteq> 0" using assms(1) pow2_pos [of e] by auto
  have fl: "floorLog2 \<bar>q\<bar> = e" using assms(1,2) by (rule floorLog2_unique)
  have k: "max (floorLog2 \<bar>q\<bar>) (- 1022) - 52 = k"
    unfolding fl k_def using assms(3) by simp
  have split: "pow2 e = pow2 52 * pow2 k" "pow2 (e + 1) = pow2 53 * pow2 k"
    unfolding k_def using pow2_add [of 52 "e - 52"] pow2_add [of 53 "e - 52"]
    by (simp_all add: add.commute)
  have lo: "pow2 52 \<le> m"
    unfolding m_def using assms(1) split(1) by (simp add: pos_le_divide_eq pow2_pos)
  have hi: "m < pow2 53"
    unfolding m_def using assms(2) split(2) by (simp add: pos_divide_less_eq pow2_pos)
  have near: "\<bar>of_int n - m\<bar> \<le> 1 / 2"
    unfolding n_def by (rule roundHalfEven_nearest)
  have p52: "pow2 52 = of_int (2 ^ 52)" and p53: "pow2 53 = of_int (2 ^ 53)"
    by (simp_all add: pow2_def)
  have "of_int (2 ^ 52) - 1 / 2 \<le> (of_int n :: rat)"
    using near lo unfolding p52 by linarith
  then have "(of_int (2 ^ 52 - 1) :: rat) < of_int n" by simp
  then have "2 ^ 52 - 1 < n" by (simp only: of_int_less_iff)
  then have n_lo: "2 ^ 52 \<le> n" by simp
  have "(of_int n :: rat) < of_int (2 ^ 53) + 1 / 2"
    using near hi unfolding p53 by linarith
  then have "(of_int n :: rat) < of_int (2 ^ 53 + 1)" by simp
  then have "n < 2 ^ 53 + 1" by (simp only: of_int_less_iff)
  then have n_hi: "n \<le> 2 ^ 53" by simp
  have n0: "n \<noteq> 0" using n_lo by simp
  have "of_int n * pow2 k \<le> pow2 53 * pow2 k"
    using n_hi pow2_pos [of k] unfolding p53 by (simp add: mult_right_mono)
  also have "\<dots> = pow2 (e + 1)" using split(2) by simp
  also have "\<dots> < pow2 1024" using assms(4) by (simp add: pow2_less_iff)
  finally have small: "\<not> pow2 1024 \<le> of_int n * pow2 k" by simp
  have "roundToDouble q =
      (if pow2 1024 \<le> of_int n * pow2 k then signedInfinity (q < 0)
       else if n = 0 then signedZero (q < 0)
       else Finite (if q < 0 then - (of_int n * pow2 k) else of_int n * pow2 k))"
    unfolding roundToDouble_def Let_def k n_def m_def using q0 by simp
  also have "\<dots> = Finite ((if q < 0 then - 1 else 1) * (of_int n * pow2 k))"
    using n0 small by simp
  finally show ?thesis
    unfolding n_def m_def k_def .
qed

lemma roundToDouble_nearest:
  assumes "roundToDouble q = Finite r"
  shows "\<bar>r - q\<bar> \<le> pow2 (max (floorLog2 \<bar>q\<bar>) (- 1022) - 52) / 2"
proof (cases "q = 0")
  case True
  with assms have "r = 0" by (simp add: roundToDouble_def)
  with True show ?thesis using pow2_pos [of "max (floorLog2 \<bar>q\<bar>) (- 1022) - 52"] by simp
next
  case False
  define k where "k = max (floorLog2 \<bar>q\<bar>) (- 1022) - 52"
  define n where "n = roundHalfEven (\<bar>q\<bar> / pow2 k)"
  have near: "\<bar>of_int n - \<bar>q\<bar> / pow2 k\<bar> \<le> 1 / 2"
    unfolding n_def by (rule roundHalfEven_nearest)
  have scaled: "\<bar>of_int n * pow2 k - \<bar>q\<bar>\<bar> \<le> pow2 k / 2"
  proof -
    have "of_int n * pow2 k - \<bar>q\<bar> = (of_int n - \<bar>q\<bar> / pow2 k) * pow2 k"
      using pow2_pos [of k] by (simp add: field_simps)
    then have "\<bar>of_int n * pow2 k - \<bar>q\<bar>\<bar> = \<bar>of_int n - \<bar>q\<bar> / pow2 k\<bar> * pow2 k"
      using pow2_pos [of k] by (simp add: abs_mult)
    also have "\<dots> \<le> 1 / 2 * pow2 k"
      using near pow2_pos [of k] by (simp add: mult_right_mono)
    finally show ?thesis by simp
  qed
  have r: "r = (if q < 0 then - (of_int n * pow2 k) else of_int n * pow2 k) \<or> r = 0 \<and> n = 0"
    using assms False
    unfolding roundToDouble_def Let_def k_def [symmetric] n_def [symmetric]
    by (auto simp: signedZero_def signedInfinity_def split: if_splits)
  show ?thesis
    unfolding k_def [symmetric] using r scaled by (auto simp: abs_if split: if_splits)
qed

lemma roundToDouble_representable:
  assumes "roundToDouble q = Finite r"
  shows "\<exists>n k. r = of_int n * pow2 k \<and> \<bar>n\<bar> \<le> 2 ^ 53 \<and> - 1074 \<le> k \<and> \<bar>r\<bar> < pow2 1024"
proof (cases "q = 0")
  case True
  with assms have "r = 0" by (simp add: roundToDouble_def)
  then show ?thesis
    using pow2_pos [of 1024] by (intro exI [of _ 0]) simp
next
  case False
  define k where "k = max (floorLog2 \<bar>q\<bar>) (- 1022) - 52"
  define m where "m = \<bar>q\<bar> / pow2 k"
  define n where "n = roundHalfEven m"
  have pos: "0 < \<bar>q\<bar>" using False by simp
  note b = floorLog2_bounds [OF pos]
  have k_lo: "- 1074 \<le> k" unfolding k_def by simp
  have "floorLog2 \<bar>q\<bar> + 1 \<le> k + 53" unfolding k_def by simp
  then have "pow2 (floorLog2 \<bar>q\<bar> + 1) \<le> pow2 (k + 53)" by (simp add: pow2_le_iff)
  also have "pow2 (k + 53) = pow2 53 * pow2 k"
    using pow2_add [of 53 k] by (simp add: add.commute)
  finally have "\<bar>q\<bar> < pow2 53 * pow2 k" using b by simp
  then have hi: "m < pow2 53"
    unfolding m_def by (simp add: pos_divide_less_eq pow2_pos)
  have m0: "0 \<le> m" unfolding m_def using pow2_pos [of k] by simp
  have near: "\<bar>of_int n - m\<bar> \<le> 1 / 2"
    unfolding n_def by (rule roundHalfEven_nearest)
  have p53: "pow2 53 = of_int (2 ^ 53)" by (simp add: pow2_def)
  have "(of_int n :: rat) < of_int (2 ^ 53) + 1 / 2"
    using near hi unfolding p53 by linarith
  then have "(of_int n :: rat) < of_int (2 ^ 53 + 1)" by simp
  then have "n < 2 ^ 53 + 1" by (simp only: of_int_less_iff)
  then have n_hi: "n \<le> 2 ^ 53" by simp
  have "- 1 / 2 \<le> (of_int n :: rat)" using near m0 by linarith
  then have "(of_int (- 1) :: rat) < of_int n" by simp
  then have "- 1 < n" by (simp only: of_int_less_iff)
  then have n_lo: "0 \<le> n" by simp
  have r: "(r = of_int n * pow2 k \<or> r = of_int (- n) * pow2 k) \<and> \<not> pow2 1024 \<le> of_int n * pow2 k"
    using assms False
    unfolding roundToDouble_def Let_def k_def [symmetric] m_def [symmetric] n_def [symmetric]
    by (auto simp: signedZero_def signedInfinity_def split: if_splits)
  have nn: "0 \<le> of_int n * pow2 k" using n_lo pow2_pos [of k] by simp
  from r show ?thesis
  proof (elim conjE disjE)
    assume "r = of_int n * pow2 k" and "\<not> pow2 1024 \<le> of_int n * pow2 k"
    then show ?thesis using n_lo n_hi k_lo nn by (intro exI [of _ n] exI [of _ k]) simp
  next
    assume "r = of_int (- n) * pow2 k" and "\<not> pow2 1024 \<le> of_int n * pow2 k"
    then show ?thesis using n_lo n_hi k_lo nn by (intro exI [of _ "- n"] exI [of _ k]) simp
  qed
qed

lemma roundToDouble_underflow:
  assumes "q \<noteq> 0" and "\<bar>q\<bar> \<le> pow2 (- 1075)"
  shows "roundToDouble q = signedZero (q < 0)"
proof -
  define m where "m = \<bar>q\<bar> / pow2 (- 1074)"
  have pos: "0 < \<bar>q\<bar>" using assms(1) by simp
  note b = floorLog2_bounds [OF pos]
  have "pow2 (floorLog2 \<bar>q\<bar>) \<le> pow2 (- 1075)" using b assms(2) by simp
  then have "floorLog2 \<bar>q\<bar> \<le> - 1075" by (simp add: pow2_le_iff)
  then have k: "max (floorLog2 \<bar>q\<bar>) (- 1022) - 52 = - 1074" by simp
  have half: "pow2 (- 1075) = pow2 (- 1074) / 2"
    using pow2_Suc [of "- 1075"] by simp
  have m_hi: "m \<le> 1 / 2"
    unfolding m_def using assms(2) half by (simp add: pos_divide_le_eq pow2_pos)
  have m_lo: "0 < m"
    unfolding m_def using pos pow2_pos [of "- 1074"] by simp
  have fl: "\<lfloor>m\<rfloor> = 0" using m_lo m_hi by (simp add: floor_eq_iff)
  have n: "roundHalfEven m = 0"
    using m_hi by (simp add: roundHalfEven_def Let_def fl)
  have "roundToDouble q =
      (if pow2 1024 \<le> of_int (roundHalfEven m) * pow2 (- 1074) then signedInfinity (q < 0)
       else if roundHalfEven m = 0 then signedZero (q < 0)
       else Finite (if q < 0 then - (of_int (roundHalfEven m) * pow2 (- 1074))
                    else of_int (roundHalfEven m) * pow2 (- 1074)))"
    unfolding roundToDouble_def Let_def k m_def using assms(1) by simp
  then show ?thesis
    using pow2_pos [of 1024] by (simp add: n)
qed

text \<open>
  Examples: \<^verbatim>\<open>10 / 200\<close> and \<^verbatim>\<open>20 / 100\<close> are the doubles the literals \<^verbatim>\<open>0.05\<close> and \<^verbatim>\<open>0.2\<close>
  denote, \<^verbatim>\<open>1 / 3\<close> is rounded, \<^verbatim>\<open>3 / 2\<close> is exact, and the smallest subnormal over 200
  underflows to a zero of its sign.
\<close>

lemma double_of_one_twentieth:
  "roundToDouble (1 / 20) = Finite (3602879701896397 / 72057594037927936)"
proof -
  have "roundHalfEven (\<bar>1 / 20\<bar> / pow2 (- 5 - 52)) = 7205759403792794"
    by code_simp
  then show ?thesis
    using roundToDouble_normal [of "- 5" "1 / 20"] by (simp add: pow2_def)
qed

lemma double_of_one_fifth:
  "roundToDouble (1 / 5) = Finite (3602879701896397 / 18014398509481984)"
proof -
  have "roundHalfEven (\<bar>1 / 5\<bar> / pow2 (- 3 - 52)) = 7205759403792794"
    by code_simp
  then show ?thesis
    using roundToDouble_normal [of "- 3" "1 / 5"] by (simp add: pow2_def)
qed

lemma numberDiv_one_third:
  "numberDiv (Finite 1) (Finite 3) = Finite (6004799503160661 / 18014398509481984)"
proof -
  have "roundHalfEven (\<bar>1 / 3\<bar> / pow2 (- 2 - 52)) = 6004799503160661"
    by code_simp
  then have "roundToDouble (1 / 3) = Finite (6004799503160661 / 18014398509481984)"
    using roundToDouble_normal [of "- 2" "1 / 3"] by (simp add: pow2_def)
  then show ?thesis by (simp add: numberDiv_def)
qed

lemma numberDiv_smallest_subnormal:
  "numberDiv (Finite (pow2 (- 1074))) (Finite 200) = Finite 0"
  and "numberDiv (Finite (- pow2 (- 1074))) (Finite 200) = NegZero"
proof -
  have small: "pow2 (- 1074) / 200 \<le> pow2 (- 1075)"
    using pow2_Suc [of "- 1075"] pow2_pos [of "- 1075"] by simp
  have nz: "pow2 (- 1074) \<noteq> 0" using pow2_pos [of "- 1074"] by simp
  have pos: "\<not> pow2 (- 1074) < 0" using pow2_pos [of "- 1074"] by simp
  have a: "roundToDouble (pow2 (- 1074) / 200) = signedZero (pow2 (- 1074) / 200 < 0)"
    using small nz pow2_pos [of "- 1074"] by (intro roundToDouble_underflow) simp_all
  have b: "roundToDouble (- pow2 (- 1074) / 200) = signedZero (- pow2 (- 1074) / 200 < 0)"
    using small nz pow2_pos [of "- 1074"] by (intro roundToDouble_underflow) simp_all
  show "numberDiv (Finite (pow2 (- 1074))) (Finite 200) = Finite 0"
    using a nz pos by (simp add: numberDiv_def signedZero_def)
  show "numberDiv (Finite (- pow2 (- 1074))) (Finite 200) = NegZero"
    using b nz pow2_pos [of "- 1074"] by (simp add: numberDiv_def signedZero_def)
qed

lemma numberDiv_exact:
  "numberDiv (Finite 3) (Finite 2) = Finite (3 / 2)"
proof -
  have "roundHalfEven (\<bar>3 / 2\<bar> / pow2 (0 - 52)) = 6755399441055744"
    by code_simp
  then have "roundToDouble (3 / 2) = Finite (3 / 2)"
    using roundToDouble_normal [of 0 "3 / 2"] by (simp add: pow2_def)
  then show ?thesis by (simp add: numberDiv_def)
qed

subsection \<open>C1: disposal\<close>

text \<open>
  C1 says that after \<^verbatim>\<open>dispose()\<close> every call of \<^verbatim>\<open>update\<close>, \<^verbatim>\<open>registerProgram\<close>, \<^verbatim>\<open>use\<close> or
  \<^verbatim>\<open>program\<close> fails with \<open>Disposed\<close>. The code does not do that: \<^verbatim>\<open>dispose\<close> deletes the GPU
  texture and leaves \<^verbatim>\<open>_disposed\<close> as it was, so on the texture of the 200 by 100 canvas all
  four calls go through after \<^verbatim>\<open>dispose()\<close>.
\<close>

theorem C1_texture_usable_after_dispose:
  "new_GlueTexture exampleSources 7 (Some (HTMLCanvasElement 200 100)) = Inr exampleTexture
   \<and> priv_disposed (snd (dispose exampleTexture)) = False
   \<and> fst (update (snd (dispose exampleTexture)) None) = Inr ()
   \<and> fst (registerProgram exampleSources (snd (dispose exampleTexture)) ''mine'' None None)
       = Inr (exampleProgram ''fragment'')
   \<and> fst (use (snd (dispose exampleTexture)) None) = Inr ()
   \<and> fst (program (snd (dispose exampleTexture)) ''~default'')
       = Inr (Program (exampleProgram ''fragment''))"
  by (simp add: new_exampleTexture)
     (simp add: example_defs method_defs objectPrototypeKeys_def)

text \<open>No method sets the flag, so no texture a caller can hold ever throws \<open>Disposed\<close>.\<close>

lemma Disposed_never_thrown:
  assumes "reachable env t"
  shows "fst (update t source) \<noteq> Inl Disposed"
    and "fst (registerProgram env t name fragment vertex) \<noteq> Inl Disposed"
    and "fst (use t target) \<noteq> Inl Disposed"
    and "fst (program t name) \<noteq> Inl Disposed"
  using reachable_not_disposed [OF assms]
  by (auto simp: method_defs dest: glueGetSourceDimensions_error
      split: option.splits sum.splits prod.splits if_splits)

subsection \<open>C2: the size uniform\<close>

text \<open>
  C2 as stated, that an explicit size is used whenever both \<^verbatim>\<open>width\<close> and \<^verbatim>\<open>height\<close> are given,
  zero included, fails: \<^verbatim>\<open>draw({width: 0, height: 0})\<close> on the 200 by 100 texture dispatches
  with size (200, 100), because the test \<^verbatim>\<open>width && height\<close> is a truth test.
\<close>

theorem C2_zero_size_counterexample:
  "draw exampleSources exampleTexture
     \<lparr>optX = None, optY = None, optWidth = Some (Finite 0), optHeight = Some (Finite 0),
      optOpacity = None, optMode = None, optMask = None\<rparr>
   = (Inr (), exampleTexture\<lparr>calls := calls exampleTexture @
        [ActiveTexture (Finite (of_nat TEXTURE1)), BindTexture (Some 7),
         Apply (exampleProgram ''blend normal'')
           (Some \<lparr>iImage = 1, iSize = (Finite 200, Finite 100),
                  iOffset = (Finite 0, Finite 0), iOpacity = Finite 1\<rparr>) None]\<rparr>)
   \<and> (Finite 200, Finite 100) \<noteq> (Finite 0, Finite 0)"
  by (simp add: example_defs method_defs objectPrototypeKeys_def numberDiv_def signedZero_def)

text \<open>
  C2, amended: whenever \<^verbatim>\<open>draw\<close> dispatches, the size uniform is the explicit pair if both
  \<^verbatim>\<open>width\<close> and \<^verbatim>\<open>height\<close> are given and neither is \<^verbatim>\<open>0\<close>, \<^verbatim>\<open>-0\<close> or \<^verbatim>\<open>NaN\<close> (negative values
  pass through), and the stored dimensions of the texture otherwise.
\<close>

theorem C2_size_uniform:
  assumes "draw env t options = (Inr (), t')"
  shows "\<exists>p u. last (calls t') = Apply p (Some u) (optMask options)
     \<and> (\<forall>w h. optWidth options = Some w \<and> optHeight options = Some h
            \<and> w \<notin> {Finite 0, NegZero, NaN} \<and> h \<notin> {Finite 0, NegZero, NaN}
          \<longrightarrow> iSize u = (w, h))
     \<and> (optWidth options \<in> {None, Some (Finite 0), Some NegZero, Some NaN}
          \<or> optHeight options \<in> {None, Some (Finite 0), Some NegZero, Some NaN}
          \<longrightarrow> iSize u = (priv_width t, priv_height t))"
proof -
  have truthy_iff: "truthy n \<longleftrightarrow> n \<notin> {Finite 0, NegZero, NaN}" for n
    by (cases n) simp_all
  from assms show ?thesis
    by (auto simp: draw_def use_def program_def checkDisposed_def Let_def truthy_iff
        split: if_splits property.splits option.splits)
qed

theorem C2_size_uniform_witness:
  "draw exampleSources exampleTexture
     \<lparr>optX = None, optY = None, optWidth = Some (Finite (- 5)), optHeight = Some (Finite 3),
      optOpacity = None, optMode = None, optMask = None\<rparr>
   = (Inr (), exampleTexture\<lparr>calls := calls exampleTexture @
        [ActiveTexture (Finite (of_nat TEXTURE1)), BindTexture (Some 7),
         Apply (exampleProgram ''blend normal'')
           (Some \<lparr>iImage = 1, iSize = (Finite (- 5), Finite 3),
                  iOffset = (Finite 0, Finite 0), iOpacity = Finite 1\<rparr>) None]\<rparr>)
   \<and> (\<exists>p u. last (calls (exampleTexture\<lparr>calls := calls exampleTexture @
        [ActiveTexture (Finite (of_nat TEXTURE1)), BindTexture (Some 7),
         Apply (exampleProgram ''blend normal'')
           (Some \<lparr>iImage = 1, iSize = (Finite (- 5), Finite 3),
                  iOffset = (Finite 0, Finite 0), iOpacity = Finite 1\<rparr>) None]\<rparr>))
         = Apply p (Some u) None \<and> iSize u = (Finite (- 5), Finite 3))"
proof -
  let ?options = "\<lparr>optX = None, optY = None, optWidth = Some (Finite (- 5)),
      optHeight = Some (Finite 3), optOpacity = None, optMode = None, optMask = None\<rparr>"
  let ?after = "exampleTexture\<lparr>calls := calls exampleTexture @
        [ActiveTexture (Finite (of_nat TEXTURE1)), BindTexture (Some 7),
         Apply (exampleProgram ''blend normal'')
           (Some \<lparr>iImage = 1, iSize = (Finite (- 5), Finite 3),
                  iOffset = (Finite 0, Finite 0), iOpacity = Finite 1\<rparr>) None]\<rparr>"
  have dispatched: "draw exampleSources exampleTexture ?options = (Inr (), ?after)"
    by (simp add: example_defs method_defs objectPrototypeKeys_def numberDiv_def signedZero_def)
  from C2_size_uniform [OF dispatched] obtain p u
    where "last (calls ?after) = Apply p (Some u) None" and "iSize u = (Finite (- 5), Finite 3)"
    by auto
  with dispatched show ?thesis by blast
qed

subsection \<open>C3: what \<^verbatim>\<open>draw\<close> dispatches\<close>

text \<open>
  Claim C3. On a texture that is not disposed, with a program registered for the blend
  mode (the given one, \<^verbatim>\<open>GlueBlendMode.NORMAL\<close> by default), \<^verbatim>\<open>draw\<close> binds the texture to
  \<^verbatim>\<open>TEXTURE1\<close> and applies that program, with the mask as given and with the uniforms:
  image unit 1 (the unit \<^verbatim>\<open>TEXTURE1\<close> the texture was just bound to), offset
  \<^verbatim>\<open>(x / _width, y / _height)\<close> with \<^verbatim>\<open>x\<close>, \<^verbatim>\<open>y\<close> defaulting to 0 and \<^verbatim>\<open>/\<close> the division of
  doubles (by the stored dimensions, whatever \<^verbatim>\<open>width\<close> and \<^verbatim>\<open>height\<close> the options give),
  opacity as given or 1, unclamped, and as size the stored dimensions when no explicit
  size is given (the explicit pair when both are given and truthy). The witness is the
  example of the claim: \<^verbatim>\<open>draw({x: 10, y: 20, opacity: 0.5, mode: Multiply})\<close> on a 200 by 100
  texture, where the offset is the pair of doubles that \<^verbatim>\<open>0.05\<close> and \<^verbatim>\<open>0.2\<close> denote.
\<close>

theorem C3_draw_dispatch:
  assumes "\<not> priv_disposed t"
    and "mode = (case optMode options of None \<Rightarrow> NORMAL env | Some m \<Rightarrow> m)"
    and "priv_programs t (''~blend_'' @ mode) = Some p"
  shows "\<exists>u. draw env t options =
           (Inr (), t\<lparr>calls := calls t @
              [ActiveTexture (Finite (of_nat TEXTURE1)), BindTexture (priv_texture t),
               Apply p (Some u) (optMask options)]\<rparr>)
         \<and> iImage u = 1 \<and> TEXTURE1 = TEXTURE0 + iImage u
         \<and> iOffset u =
              (numberDiv (case optX options of None \<Rightarrow> Finite 0 | Some x \<Rightarrow> x) (priv_width t),
               numberDiv (case optY options of None \<Rightarrow> Finite 0 | Some y \<Rightarrow> y) (priv_height t))
         \<and> iOpacity u = (case optOpacity options of None \<Rightarrow> Finite 1 | Some opacity \<Rightarrow> opacity)
         \<and> (optWidth options = None \<or> optHeight options = None
              \<longrightarrow> iSize u = (priv_width t, priv_height t))
         \<and> (\<forall>w h. optWidth options = Some w \<and> optHeight options = Some h
              \<longrightarrow> iSize u = (if w \<in> {Finite 0, NegZero, NaN} \<or> h \<in> {Finite 0, NegZero, NaN}
                             then (priv_width t, priv_height t) else (w, h)))"
proof -
  define size where "size = (case (optWidth options, optHeight options) of
      (Some w, Some h) \<Rightarrow> if truthy w \<and> truthy h then (w, h) else (priv_width t, priv_height t)
    | _ \<Rightarrow> (priv_width t, priv_height t))"
  define u where "u = \<lparr>iImage = 1, iSize = size,
      iOffset = (numberDiv (orElse (optX options) (Finite 0)) (priv_width t),
                 numberDiv (orElse (optY options) (Finite 0)) (priv_height t)),
      iOpacity = orElse (optOpacity options) (Finite 1)\<rparr>"
  have truthy_iff: "truthy n \<longleftrightarrow> n \<notin> {Finite 0, NegZero, NaN}" for n
    by (cases n) simp_all
  have found: "programsAt t (''~blend_'' @ orElse (optMode options) (NORMAL env)) = Program p"
    unfolding programsAt_blend using assms(2,3) by (simp add: orElse_def)
  have dispatched: "draw env t options =
           (Inr (), t\<lparr>calls := calls t @
              [ActiveTexture (Finite (of_nat TEXTURE1)), BindTexture (priv_texture t),
               Apply p (Some u) (optMask options)]\<rparr>)"
  proof -
    have same: "programsAt (t\<lparr>calls := c\<rparr>) name = programsAt t name" for c name
      by (simp add: programsAt_def)
    show ?thesis
      using assms(1) found
      by (cases "optWidth options"; cases "optHeight options")
         (simp_all add: draw_def use_def program_def checkDisposed_def Let_def u_def size_def same)
  qed
  have unit: "iImage u = 1" "TEXTURE1 = TEXTURE0 + iImage u"
    by (simp_all add: u_def TEXTURE0_def TEXTURE1_def)
  have offset: "iOffset u =
      (numberDiv (case optX options of None \<Rightarrow> Finite 0 | Some x \<Rightarrow> x) (priv_width t),
       numberDiv (case optY options of None \<Rightarrow> Finite 0 | Some y \<Rightarrow> y) (priv_height t))"
    by (simp add: u_def orElse_def)
  have opacity: "iOpacity u = (case optOpacity options of None \<Rightarrow> Finite 1 | Some opacity \<Rightarrow> opacity)"
    by (simp add: u_def orElse_def)
  have native: "optWidth options = None \<or> optHeight options = None
      \<longrightarrow> iSize u = (priv_width t, priv_height t)"
    by (auto simp: u_def size_def split: option.splits)
  have explicit: "\<forall>w h. optWidth options = Some w \<and> optHeight options = Some h
      \<longrightarrow> iSize u = (if w \<in> {Finite 0, NegZero, NaN} \<or> h \<in> {Finite 0, NegZero, NaN}
                     then (priv_width t, priv_height t) else (w, h))"
  proof (intro allI impI)
    fix w h assume given: "optWidth options = Some w \<and> optHeight options = Some h"
    then have "iSize u = (if truthy w \<and> truthy h then (w, h) else (priv_width t, priv_height t))"
      by (simp add: u_def size_def)
    then show "iSize u = (if w \<in> {Finite 0, NegZero, NaN} \<or> h \<in> {Finite 0, NegZero, NaN}
                     then (priv_width t, priv_height t) else (w, h))"
      unfolding truthy_iff by auto
  qed
  show ?thesis
    by (rule exI [of _ u]) (intro conjI dispatched unit offset opacity native explicit)
qed

theorem C3_draw_dispatch_witness:
  "\<not> priv_disposed exampleTexture
   \<and> priv_programs exampleTexture (''~blend_'' @ ''multiply'') = Some (exampleProgram ''blend multiply'')
   \<and> draw exampleSources exampleTexture
       \<lparr>optX = Some (Finite 10), optY = Some (Finite 20), optWidth = None, optHeight = None,
        optOpacity = Some (Finite (1 / 2)), optMode = Some ''multiply'', optMask = None\<rparr>
     = (Inr (), exampleTexture\<lparr>calls := calls exampleTexture @
          [ActiveTexture (Finite (of_nat TEXTURE1)), BindTexture (Some 7),
           Apply (exampleProgram ''blend multiply'')
             (Some \<lparr>iImage = 1, iSize = (Finite 200, Finite 100),
                    iOffset = (Finite (3602879701896397 / 72057594037927936),
                               Finite (3602879701896397 / 18014398509481984)),
                    iOpacity = Finite (1 / 2)\<rparr>)
             None]\<rparr>)
   \<and> roundToDouble (5 / 100) = Finite (3602879701896397 / 72057594037927936)
   \<and> roundToDouble (2 / 10) = Finite (3602879701896397 / 18014398509481984)
   \<and> roundToDouble (5 / 10) = Finite (1 / 2)"
proof -
  let ?options = "\<lparr>optX = Some (Finite 10), optY = Some (Finite 20), optWidth = None,
      optHeight = None, optOpacity = Some (Finite (1 / 2)), optMode = Some ''multiply'',
      optMask = None\<rparr>"
  have live: "\<not> priv_disposed exampleTexture"
    by (simp add: exampleTexture_def)
  have mode: "''multiply'' = (case optMode ?options of None \<Rightarrow> NORMAL exampleSources | Some m \<Rightarrow> m)"
    by simp
  have registered: "priv_programs exampleTexture (''~blend_'' @ ''multiply'')
      = Some (exampleProgram ''blend multiply'')"
    by (simp add: exampleTexture_def)
  have half: "roundToDouble (1 / 2) = Finite (1 / 2)"
  proof -
    have "roundHalfEven (\<bar>1 / 2\<bar> / pow2 (- 1 - 52)) = 4503599627370496"
      by code_simp
    then show ?thesis
      using roundToDouble_normal [of "- 1" "1 / 2"] by (simp add: pow2_def)
  qed
  have x: "numberDiv (Finite 10) (Finite 200) = Finite (3602879701896397 / 72057594037927936)"
    using double_of_one_twentieth by (simp add: numberDiv_def)
  have y: "numberDiv (Finite 20) (Finite 100) = Finite (3602879701896397 / 18014398509481984)"
    using double_of_one_fifth by (simp add: numberDiv_def)
  from C3_draw_dispatch [OF live mode registered] obtain u where
    u: "draw exampleSources exampleTexture ?options =
           (Inr (), exampleTexture\<lparr>calls := calls exampleTexture @
              [ActiveTexture (Finite (of_nat TEXTURE1)), BindTexture (priv_texture exampleTexture),
               Apply (exampleProgram ''blend multiply'') (Some u) (optMask ?options)]\<rparr>)"
      "iImage u = 1"
      "iOffset u = (numberDiv (Finite 10) (priv_width exampleTexture),
                    numberDiv (Finite 20) (priv_height exampleTexture))"
      "iOpacity u = Finite (1 / 2)"
      "iSize u = (priv_width exampleTexture, priv_height exampleTexture)"
    by auto
  have "u = \<lparr>iImage = 1, iSize = (Finite 200, Finite 100),
             iOffset = (Finite (3602879701896397 / 72057594037927936),
                        Finite (3602879701896397 / 18014398509481984)),
             iOpacity = Finite (1 / 2)\<rparr>"
    using u(2-5) x y by (cases u) (simp add: exampleTexture_def)
  with u(1) live registered double_of_one_twentieth double_of_one_fifth half show ?thesis
    by (simp add: exampleTexture_def)
qed

subsection \<open>C4: the programs the constructor registers\<close>

text \<open>The loop over the blend modes succeeds when the modes are distinct and none is taken.\<close>

lemma registerProgram_fresh:
  assumes "\<not> priv_disposed t" and "priv_programs t name = None"
    and "name \<notin> set objectPrototypeKeys"
  shows "registerProgram env t name fragment vertex =
           (Inr \<lparr>fragmentShader = orDefault fragment (defaultFragmentShader env),
                  vertexShader = orDefault vertex (defaultVertexShader env),
                  importTable = priv_imports t\<rparr>,
            t\<lparr>priv_programs := (priv_programs t)(name \<mapsto>
                 \<lparr>fragmentShader = orDefault fragment (defaultFragmentShader env),
                  vertexShader = orDefault vertex (defaultVertexShader env),
                  importTable = priv_imports t\<rparr>)\<rparr>)"
  using assms by (simp add: registerProgram_def checkDisposed_def programsAt_def Let_def)

lemma registerBlendPrograms_fresh:
  assumes "\<not> priv_disposed t" and "distinct modes"
    and "\<forall>m\<in>set modes. priv_programs t (''~blend_'' @ m) = None"
  shows "\<exists>t'. registerBlendPrograms env t modes = (Inr (), t')
           \<and> dom (priv_programs t') = dom (priv_programs t) \<union> (\<lambda>m. ''~blend_'' @ m) ` set modes
           \<and> \<not> priv_disposed t' \<and> calls t' = calls t"
  using assms
proof (induction modes arbitrary: t)
  case Nil
  then show ?case by simp
next
  case (Cons mode modes)
  let ?name = "''~blend_'' @ mode"
  let ?created = "\<lparr>fragmentShader = orDefault (blendFragmentShaders env mode) (defaultFragmentShader env),
                  vertexShader = orDefault None (defaultVertexShader env),
                  importTable = priv_imports t\<rparr>"
  let ?t1 = "t\<lparr>priv_programs := (priv_programs t)(?name \<mapsto> ?created)\<rparr>"
  have absent: "priv_programs t ?name = None"
    using Cons.prems(3) by (simp del: append.simps)
  have first: "registerProgram env t ?name (blendFragmentShaders env mode) None = (Inr ?created, ?t1)"
    using Cons.prems(1) absent blend_name_not_inherited by (rule registerProgram_fresh)
  have live: "\<not> priv_disposed ?t1"
    using Cons.prems(1) by simp
  have others: "\<forall>m\<in>set modes. priv_programs ?t1 (''~blend_'' @ m) = None"
    using Cons.prems(2,3) by (auto simp del: append.simps)
  have rest_distinct: "distinct modes"
    using Cons.prems(2) by simp
  from Cons.IH [OF live rest_distinct others]
  obtain t' where rest: "registerBlendPrograms env ?t1 modes = (Inr (), t')"
    and keys: "dom (priv_programs t') = dom (priv_programs ?t1) \<union> (\<lambda>m. ''~blend_'' @ m) ` set modes"
    and live': "\<not> priv_disposed t'" and calls': "calls t' = calls ?t1"
    by blast
  have "registerBlendPrograms env t (mode # modes) = (Inr (), t')"
    unfolding registerBlendPrograms.simps first using rest by simp
  moreover have "dom (priv_programs t') =
      dom (priv_programs t) \<union> (\<lambda>m. ''~blend_'' @ m) ` set (mode # modes)"
    unfolding keys by (auto simp del: append.simps)
  ultimately show ?case
    using live' calls' by simp
qed

text \<open>
  Claim C4. For a ready source (an image, a video or a canvas) and blend-mode values that
  are pairwise distinct, the constructor returns a texture whose registry holds exactly
  \<^verbatim>\<open>~default\<close> and \<^verbatim>\<open>~blend_\<close> + m for every blend-mode value m, that is
  \<open>length (blendModeValues env) + 1\<close> programs, and \<^verbatim>\<open>hasProgram("~blend_" + m)\<close> is true for
  every m.
\<close>

theorem C4_constructor_registers_programs:
  assumes "distinct (blendModeValues env)"
    and "glueIsSourceLoaded source" and "source \<noteq> Some OtherObject"
  shows "\<exists>t. new_GlueTexture env texture source = Inr t
     \<and> dom (priv_programs t) =
         insert ''~default'' ((\<lambda>m. ''~blend_'' @ m) ` set (blendModeValues env))
     \<and> card (dom (priv_programs t)) = length (blendModeValues env) + 1
     \<and> (\<forall>m\<in>set (blendModeValues env). hasProgram t (''~blend_'' @ m) = (Inr True, t))"
proof -
  let ?fresh = "\<lparr>priv_width = NaN, priv_height = NaN, priv_disposed = False,
                     priv_texture = None, priv_programs = Map.empty,
                     priv_imports = Map.empty, priv_source = source,
                     calls = [CreateTexture (Finite (of_nat TEXTURE1)) texture,
                              PixelStoreiFlipY True, TexImage2D source]\<rparr>"
  let ?default = "\<lparr>fragmentShader = orDefault None (defaultFragmentShader env),
                  vertexShader = orDefault None (defaultVertexShader env),
                  importTable = priv_imports ?fresh\<rparr>"
  let ?named = "?fresh\<lparr>priv_programs := (priv_programs ?fresh)(''~default'' \<mapsto> ?default)\<rparr>"
  let ?names = "(\<lambda>m. ''~blend_'' @ m) ` set (blendModeValues env)"
  have first: "registerProgram env ?fresh ''~default'' None None = (Inr ?default, ?named)"
    by (rule registerProgram_fresh) (simp_all add: default_name_not_inherited)
  have live1: "\<not> priv_disposed ?named"
    by simp
  have fresh1: "\<forall>m\<in>set (blendModeValues env). priv_programs ?named (''~blend_'' @ m) = None"
    by simp
  from registerBlendPrograms_fresh [OF live1 assms(1) fresh1, of env]
  obtain this2 where loop: "registerBlendPrograms env ?named (blendModeValues env) = (Inr (), this2)"
    and keys2: "dom (priv_programs this2) = dom (priv_programs ?named) \<union> ?names"
    and live2: "\<not> priv_disposed this2"
    by auto
  have keys: "dom (priv_programs this2) = insert ''~default'' ?names"
    unfolding keys2 by simp
  from assms(2,3) obtain width height where dims: "glueGetSourceDimensions source = Inr (width, height)"
    by (cases source rule: glueGetSourceDimensions.cases) simp_all
  let ?sized = "this2\<lparr>priv_texture := Some texture, priv_width := width, priv_height := height\<rparr>"
  from keys obtain p where p: "priv_programs this2 ''~default'' = Some p"
    by (metis domD insertI1)
  have lookup: "program ?sized ''~default'' = (Inr (Program p), ?sized)"
    using live2 p by (simp add: program_def checkDisposed_def programsAt_def)
  let ?t = "?sized\<lparr>calls := calls ?sized @ [Apply p None None]\<rparr>"
  have built: "new_GlueTexture env texture source = Inr ?t"
    by (simp only: new_GlueTexture_def Let_def first loop dims lookup assms(2)
        prod.case sum.case property.case not_True_eq_False if_False)
  have inj: "inj_on (\<lambda>m. ''~blend_'' @ m) (set (blendModeValues env))"
    by (rule inj_onI) simp
  have "card ?names = length (blendModeValues env)"
    using inj assms(1) by (simp add: card_image distinct_card)
  moreover have "''~default'' \<notin> ?names"
    by auto
  ultimately have count: "card (insert ''~default'' ?names) = length (blendModeValues env) + 1"
    by simp
  have has: "\<forall>m\<in>set (blendModeValues env). hasProgram ?t (''~blend_'' @ m) = (Inr True, ?t)"
  proof
    fix m assume "m \<in> set (blendModeValues env)"
    then have "''~blend_'' @ m \<in> dom (priv_programs this2)"
      unfolding keys by (simp del: append.simps)
    then show "hasProgram ?t (''~blend_'' @ m) = (Inr True, ?t)"
      by (auto simp: hasProgram_def programsAt_def simp del: append.simps)
  qed
  have "dom (priv_programs ?t) = insert ''~default'' ?names"
    using keys by simp
  with built count has show ?thesis
    by (intro exI [of _ ?t]) (simp del: append.simps)
qed

theorem C4_constructor_registers_programs_witness:
  "distinct (blendModeValues exampleSources)
   \<and> glueIsSourceLoaded (Some (HTMLCanvasElement 200 100))
   \<and> new_GlueTexture exampleSources 7 (Some (HTMLCanvasElement 200 100)) = Inr exampleTexture
   \<and> card (dom (priv_programs exampleTexture)) = 4
   \<and> hasProgram exampleTexture ''~blend_normal'' = (Inr True, exampleTexture)
   \<and> hasProgram exampleTexture ''~blend_multiply'' = (Inr True, exampleTexture)
   \<and> hasProgram exampleTexture ''~blend_screen'' = (Inr True, exampleTexture)"
proof -
  have modes: "distinct (blendModeValues exampleSources)"
    by (simp add: exampleSources_def)
  have ready: "glueIsSourceLoaded (Some (HTMLCanvasElement 200 100))"
    by simp
  have typed: "Some (HTMLCanvasElement 200 100) \<noteq> Some OtherObject"
    by simp
  from C4_constructor_registers_programs [OF modes ready typed, of 7]
  obtain t where built: "new_GlueTexture exampleSources 7 (Some (HTMLCanvasElement 200 100)) = Inr t"
    and count: "card (dom (priv_programs t)) = length (blendModeValues exampleSources) + 1"
    and has: "\<forall>m\<in>set (blendModeValues exampleSources). hasProgram t (''~blend_'' @ m) = (Inr True, t)"
    by blast
  have t: "t = exampleTexture"
    using built new_exampleTexture by simp
  have "card (dom (priv_programs exampleTexture)) = 4"
    using count unfolding t by (simp add: exampleSources_def)
  moreover have "hasProgram exampleTexture ''~blend_normal'' = (Inr True, exampleTexture)"
    and "hasProgram exampleTexture ''~blend_multiply'' = (Inr True, exampleTexture)"
    and "hasProgram exampleTexture ''~blend_screen'' = (Inr True, exampleTexture)"
    using has unfolding t by (simp_all add: exampleSources_def)
  ultimately show ?thesis
    using modes ready new_exampleTexture by simp
qed

subsection \<open>C5: \<^verbatim>\<open>update\<close> with a source that is not ready\<close>

text \<open>
  Claim C5. On a texture that is not disposed, \<^verbatim>\<open>update(newSource)\<close> with a source that fails
  \<^verbatim>\<open>glueIsSourceLoaded\<close> throws \<open>SourceNotReady\<close> and leaves the texture as it was: width,
  height, source, and every other field.
\<close>

theorem C5_update_not_ready:
  assumes "\<not> priv_disposed t" and "\<not> glueIsSourceLoaded (Some newSource)"
  shows "update t (Some newSource) = (Inl SourceNotReady, t)"
  using assms by (simp add: update_def checkDisposed_def)

theorem C5_update_not_ready_witness:
  "\<not> priv_disposed exampleTexture
   \<and> \<not> glueIsSourceLoaded (Some (HTMLImageElement True 640 0))
   \<and> update exampleTexture (Some (HTMLImageElement True 640 0)) = (Inl SourceNotReady, exampleTexture)
   \<and> priv_width (snd (update exampleTexture (Some (HTMLImageElement True 640 0)))) = Finite 200
   \<and> priv_height (snd (update exampleTexture (Some (HTMLImageElement True 640 0)))) = Finite 100
   \<and> priv_source (snd (update exampleTexture (Some (HTMLImageElement True 640 0))))
       = Some (HTMLCanvasElement 200 100)"
proof -
  have live: "\<not> priv_disposed exampleTexture"
    by (simp add: exampleTexture_def)
  have pending: "\<not> glueIsSourceLoaded (Some (HTMLImageElement True 640 0))"
    by simp
  show ?thesis
    using live pending C5_update_not_ready [OF live pending]
    by (simp add: exampleTexture_def)
qed

subsection \<open>C6: registering a name twice\<close>

text \<open>
  Claim C6. On a texture that is not disposed, \<^verbatim>\<open>registerProgram(name, ...)\<close> for a name that
  is in the registry throws \<open>DuplicateName\<close>, changes nothing, and \<^verbatim>\<open>program(name)\<close>
  afterwards still returns the program registered first.
\<close>

theorem C6_duplicate_name:
  assumes "\<not> priv_disposed t" and "priv_programs t name = Some p"
  shows "registerProgram env t name fragment vertex = (Inl (DuplicateName name), t)
         \<and> priv_programs (snd (registerProgram env t name fragment vertex)) name = Some p
         \<and> program (snd (registerProgram env t name fragment vertex)) name = (Inr (Program p), t)"
  using assms by (simp add: registerProgram_def program_def checkDisposed_def programsAt_def)

theorem C6_duplicate_name_witness:
  "\<not> priv_disposed (snd (registerProgram exampleSources exampleTexture ''mine'' (Some ''first'') None))
   \<and> fst (registerProgram exampleSources exampleTexture ''mine'' (Some ''first'') None)
       = Inr (exampleProgram ''first'')
   \<and> fst (registerProgram exampleSources
            (snd (registerProgram exampleSources exampleTexture ''mine'' (Some ''first'') None))
            ''mine'' (Some ''second'') None) = Inl (DuplicateName ''mine'')
   \<and> fst (program
            (snd (registerProgram exampleSources
                   (snd (registerProgram exampleSources exampleTexture ''mine'' (Some ''first'') None))
                   ''mine'' (Some ''second'') None)) ''mine'')
       = Inr (Program (exampleProgram ''first''))"
proof -
  let ?t1 = "snd (registerProgram exampleSources exampleTexture ''mine'' (Some ''first'') None)"
  have first: "registerProgram exampleSources exampleTexture ''mine'' (Some ''first'') None
      = (Inr (exampleProgram ''first''),
         exampleTexture\<lparr>priv_programs := (priv_programs exampleTexture)(''mine'' \<mapsto> exampleProgram ''first'')\<rparr>)"
    by (simp add: example_defs method_defs objectPrototypeKeys_def)
  have live: "\<not> priv_disposed ?t1"
    by (simp add: first) (simp add: exampleTexture_def)
  have present: "priv_programs ?t1 ''mine'' = Some (exampleProgram ''first'')"
    by (simp add: first)
  note second = C6_duplicate_name [OF live present, of exampleSources "Some ''second''" None]
  show ?thesis
  proof (intro conjI)
    show "\<not> priv_disposed ?t1"
      by (rule live)
    show "fst (registerProgram exampleSources exampleTexture ''mine'' (Some ''first'') None)
        = Inr (exampleProgram ''first'')"
      by (simp add: first)
    show "fst (registerProgram exampleSources ?t1 ''mine'' (Some ''second'') None)
        = Inl (DuplicateName ''mine'')"
      by (simp add: conjunct1 [OF second])
    show "fst (program (snd (registerProgram exampleSources ?t1 ''mine'' (Some ''second'') None))
                 ''mine'') = Inr (Program (exampleProgram ''first''))"
      by (simp add: conjunct2 [OF conjunct2 [OF second]])
  qed
qed

subsection \<open>C7: a blend mode without a program\<close>

text \<open>
  Claim C7. On every texture a caller can hold, a \<^verbatim>\<open>draw\<close> whose blend mode has no program
  under \<^verbatim>\<open>~blend_\<close> + mode throws \<open>InvalidBlendMode\<close>; the only calls it has made by then are
  the two of \<^verbatim>\<open>use()\<close>, and no program is applied.
\<close>

theorem C7_invalid_blend_mode:
  assumes "reachable env t"
    and "mode = (case optMode options of None \<Rightarrow> NORMAL env | Some m \<Rightarrow> m)"
    and "priv_programs t (''~blend_'' @ mode) = None"
  shows "draw env t options =
           (Inl InvalidBlendMode, t\<lparr>calls := calls t @
              [ActiveTexture (Finite (of_nat TEXTURE1)), BindTexture (priv_texture t)]\<rparr>)"
proof -
  have live: "\<not> priv_disposed t"
    using assms(1) by (rule reachable_not_disposed)
  have absent: "programsAt t (''~blend_'' @ orElse (optMode options) (NORMAL env)) = Undefined"
    unfolding programsAt_blend using assms(2,3) by (simp add: orElse_def)
  show ?thesis
    using live absent
    by (simp add: draw_def use_def program_def checkDisposed_def Let_def programsAt_def)
qed

theorem C7_invalid_blend_mode_witness:
  "reachable exampleSources exampleTexture
   \<and> priv_programs exampleTexture (''~blend_'' @ ''nonexistent'') = None
   \<and> draw exampleSources exampleTexture
       \<lparr>optX = None, optY = None, optWidth = None, optHeight = None, optOpacity = None,
        optMode = Some ''nonexistent'', optMask = None\<rparr>
     = (Inl InvalidBlendMode, exampleTexture\<lparr>calls := calls exampleTexture @
          [ActiveTexture (Finite (of_nat TEXTURE1)), BindTexture (Some 7)]\<rparr>)"
proof -
  let ?options = "\<lparr>optX = None, optY = None, optWidth = None, optHeight = None,
      optOpacity = None, optMode = Some ''nonexistent'', optMask = None\<rparr>"
  have held: "reachable exampleSources exampleTexture"
    using new_exampleTexture by (rule reachable.constructed)
  have mode: "''nonexistent'' = (case optMode ?options of None \<Rightarrow> NORMAL exampleSources | Some m \<Rightarrow> m)"
    by simp
  have absent: "priv_programs exampleTexture (''~blend_'' @ ''nonexistent'') = None"
    by (simp add: exampleTexture_def)
  show ?thesis
    using held absent C7_invalid_blend_mode [OF held mode absent]
    by (simp add: exampleTexture_def)
qed

subsection \<open>C8: imports are overwritten\<close>

text \<open>
  The one name \<^verbatim>\<open>registerImport\<close> cannot add to an import table is \<^verbatim>\<open>__proto__\<close>.
\<close>

lemma registerImport_proto_ignored:
  assumes "\<not> priv_disposed t" and "priv_imports t ''__proto__'' = None"
  shows "registerImport t ''__proto__'' source = (Inr (), t)"
  using assms by (simp add: registerImport_def checkDisposed_def assignImport_def)

text \<open>
  Claim C8. On a texture that is not disposed, \<^verbatim>\<open>registerImport(name, source)\<close> never throws
  and overwrites an import that exists under that name (for every name, and it adds the
  import for every name but \<^verbatim>\<open>__proto__\<close>); after \<^verbatim>\<open>registerImport("foo", srcA)\<close> and
  \<^verbatim>\<open>registerImport("foo", srcB)\<close> the table is the old one with \<^verbatim>\<open>foo\<close> mapped to \<open>srcB\<close>, and a
  program registered next under a free name is built from that table.
\<close>

theorem C8_registerImport_overwrites:
  assumes "\<not> priv_disposed t"
    and "t2 = snd (registerImport (snd (registerImport t ''foo'' srcA)) ''foo'' srcB)"
  shows "(priv_imports t name \<noteq> None \<or> name \<noteq> ''__proto__'' \<longrightarrow>
            registerImport t name source
              = (Inr (), t\<lparr>priv_imports := (priv_imports t)(name \<mapsto> source)\<rparr>))
     \<and> fst (registerImport t name source) = Inr ()
     \<and> fst (registerImport (snd (registerImport t ''foo'' srcA)) ''foo'' srcB) = Inr ()
     \<and> t2 = t\<lparr>priv_imports := (priv_imports t)(''foo'' \<mapsto> srcB)\<rparr>
     \<and> priv_imports t2 ''foo'' = Some srcB
     \<and> (programsAt t programName = Undefined \<longrightarrow>
          (\<exists>created. registerProgram env t2 programName fragment vertex
                      = (Inr created, t2\<lparr>priv_programs := (priv_programs t2)(programName \<mapsto> created)\<rparr>)
                    \<and> importTable created = priv_imports t2
                    \<and> importTable created ''foo'' = Some srcB))"
proof -
  have once: "registerImport t ''foo'' srcA
      = (Inr (), t\<lparr>priv_imports := (priv_imports t)(''foo'' \<mapsto> srcA)\<rparr>)"
    using assms(1) by (simp add: registerImport_def checkDisposed_def assignImport_def)
  have twice: "registerImport (snd (registerImport t ''foo'' srcA)) ''foo'' srcB
      = (Inr (), t\<lparr>priv_imports := (priv_imports t)(''foo'' \<mapsto> srcB)\<rparr>)"
    using assms(1) by (simp add: once) (simp add: registerImport_def checkDisposed_def assignImport_def)
  have t2: "t2 = t\<lparr>priv_imports := (priv_imports t)(''foo'' \<mapsto> srcB)\<rparr>"
    using assms(2) by (simp add: twice)
  have general: "priv_imports t name \<noteq> None \<or> name \<noteq> ''__proto__'' \<longrightarrow>
            registerImport t name source
              = (Inr (), t\<lparr>priv_imports := (priv_imports t)(name \<mapsto> source)\<rparr>)"
    using assms(1) by (auto simp: registerImport_def checkDisposed_def assignImport_def)
  have built: "programsAt t programName = Undefined \<longrightarrow>
          (\<exists>created. registerProgram env t2 programName fragment vertex
                      = (Inr created, t2\<lparr>priv_programs := (priv_programs t2)(programName \<mapsto> created)\<rparr>)
                    \<and> importTable created = priv_imports t2
                    \<and> importTable created ''foo'' = Some srcB)"
    unfolding t2 using assms(1)
    by (simp add: registerProgram_def checkDisposed_def programsAt_def Let_def)
  have returns: "fst (registerImport t name source) = Inr ()"
    using assms(1) by (simp add: registerImport_def checkDisposed_def)
  show ?thesis
    using general returns twice t2 built by simp
qed

theorem C8_registerImport_overwrites_witness:
  "\<not> priv_disposed exampleTexture
   \<and> registerImport exampleTexture ''foo'' ''a''
       = (Inr (), exampleTexture\<lparr>priv_imports := [''foo'' \<mapsto> ''a'']\<rparr>)
   \<and> registerImport (exampleTexture\<lparr>priv_imports := [''foo'' \<mapsto> ''a'']\<rparr>) ''foo'' ''b''
       = (Inr (), exampleTexture\<lparr>priv_imports := [''foo'' \<mapsto> ''b'']\<rparr>)
   \<and> programsAt exampleTexture ''mine'' = Undefined
   \<and> fst (registerProgram exampleSources (exampleTexture\<lparr>priv_imports := [''foo'' \<mapsto> ''b'']\<rparr>)
            ''mine'' None None)
       = Inr \<lparr>fragmentShader = ''fragment'', vertexShader = ''vertex'',
              importTable = [''foo'' \<mapsto> ''b'']\<rparr>"
proof -
  let ?t1 = "exampleTexture\<lparr>priv_imports := [''foo'' \<mapsto> ''a'']\<rparr>"
  let ?t2 = "exampleTexture\<lparr>priv_imports := [''foo'' \<mapsto> ''b'']\<rparr>"
  have live: "\<not> priv_disposed exampleTexture"
    by (simp add: exampleTexture_def)
  have live1: "\<not> priv_disposed ?t1"
    by (simp add: exampleTexture_def)
  have empty: "priv_imports exampleTexture = Map.empty"
    by (simp add: exampleTexture_def)
  have fresh: "programsAt exampleTexture ''mine'' = Undefined"
    by (simp add: exampleTexture_def programsAt_def objectPrototypeKeys_def)
  note first = C8_registerImport_overwrites [OF live refl, where name = "''foo''"
      and source = "''a''" and srcA = "''a''" and srcB = "''b''" and env = exampleSources
      and programName = "''mine''" and fragment = None and vertex = None]
  note again = C8_registerImport_overwrites [OF live1 refl, where name = "''foo''"
      and source = "''b''"]
  have a: "registerImport exampleTexture ''foo'' ''a'' = (Inr (), ?t1)"
    using first by (simp add: empty)
  have b: "registerImport ?t1 ''foo'' ''b'' = (Inr (), ?t2)"
    using again by simp
  have t2: "snd (registerImport (snd (registerImport exampleTexture ''foo'' ''a'')) ''foo'' ''b'') = ?t2"
    by (simp add: a b)
  from first fresh obtain created where
    "registerProgram exampleSources ?t2 ''mine'' None None
       = (Inr created, ?t2\<lparr>priv_programs := (priv_programs ?t2)(''mine'' \<mapsto> created)\<rparr>)"
    and "importTable created = priv_imports ?t2"
    unfolding t2 by blast
  then have c: "fst (registerProgram exampleSources ?t2 ''mine'' None None)
       = Inr \<lparr>fragmentShader = ''fragment'', vertexShader = ''vertex'',
              importTable = [''foo'' \<mapsto> ''b'']\<rparr>"
    by (simp add: registerProgram_def checkDisposed_def programsAt_def objectPrototypeKeys_def
        orDefault_def exampleSources_def exampleTexture_def Let_def)
  show ?thesis
    using live a b fresh c by simp
qed

subsection \<open>C9: \<^verbatim>\<open>hasProgram\<close>\<close>

text \<open>
  Claim C9 says that \<^verbatim>\<open>hasProgram(name)\<close> is true exactly when \<open>name\<close> is in the program
  registry. On the texture the constructor returns for the 200 by 100 canvas, nothing is
  registered under \<^verbatim>\<open>toString\<close>, and \<^verbatim>\<open>hasProgram("toString")\<close> is true: the lookup
  \<^verbatim>\<open>this._programs[name]\<close> finds the member every object inherits.
\<close>

theorem C9_hasProgram_inherited_name:
  "new_GlueTexture exampleSources 7 (Some (HTMLCanvasElement 200 100)) = Inr exampleTexture
   \<and> priv_programs exampleTexture ''toString'' = None
   \<and> hasProgram exampleTexture ''toString'' = (Inr True, exampleTexture)"
  by (simp add: new_exampleTexture)
     (simp add: exampleTexture_def hasProgram_def programsAt_def objectPrototypeKeys_def)

text \<open>
  The rest of C9 holds: \<^verbatim>\<open>hasProgram\<close> has no disposed check and never throws, whatever the
  flag, and \<^verbatim>\<open>program\<close> checks the flag first.
\<close>

lemma hasProgram_unguarded:
  "hasProgram t name =
     (Inr (name \<in> dom (priv_programs t) \<or> name \<in> set objectPrototypeKeys), t)"
  by (auto simp: hasProgram_def programsAt_def split: option.splits)

lemma program_guarded: "priv_disposed t \<Longrightarrow> program t name = (Inl Disposed, t)"
  by (simp add: program_def checkDisposed_def)

subsection \<open>C10: which sources are not ready\<close>

text \<open>Neither the constructor nor \<^verbatim>\<open>update\<close> throws \<open>SourceNotReady\<close> for a source that is loaded.\<close>

lemma registerProgram_errors:
  "fst (registerProgram env t name fragment vertex) = Inl e \<Longrightarrow> e = Disposed \<or> e = DuplicateName name"
  by (auto simp: registerProgram_def checkDisposed_def Let_def split: if_splits)

lemma registerBlendPrograms_errors:
  "fst (registerBlendPrograms env t modes) = Inl e \<Longrightarrow> e \<noteq> SourceNotReady"
proof (induction modes arbitrary: t)
  case Nil
  then show ?case by simp
next
  case (Cons mode modes)
  obtain r t1 where step:
    "registerProgram env t (''~blend_'' @ mode) (blendFragmentShaders env mode) None = (r, t1)"
    by (cases "registerProgram env t (''~blend_'' @ mode) (blendFragmentShaders env mode) None")
  show ?case
  proof (cases r)
    case (Inl e')
    have "e' = Disposed \<or> e' = DuplicateName (''~blend_'' @ mode)"
      by (rule registerProgram_errors [of env t _ "blendFragmentShaders env mode" None])
         (simp only: step Inl fst_conv)
    moreover have "e = e'"
      using Cons.prems unfolding registerBlendPrograms.simps step Inl by simp
    ultimately show ?thesis by auto
  next
    case (Inr p)
    have "fst (registerBlendPrograms env t1 modes) = Inl e"
      using Cons.prems unfolding registerBlendPrograms.simps step Inr by simp
    then show ?thesis by (rule Cons.IH)
  qed
qed

lemma new_GlueTexture_SourceNotReady:
  "new_GlueTexture env texture source = Inl SourceNotReady \<longleftrightarrow> \<not> glueIsSourceLoaded source"
proof
  assume failed: "new_GlueTexture env texture source = Inl SourceNotReady"
  show "\<not> glueIsSourceLoaded source"
  proof
    assume ready: "glueIsSourceLoaded source"
    let ?fresh = "\<lparr>priv_width = NaN, priv_height = NaN, priv_disposed = False,
                     priv_texture = None, priv_programs = Map.empty,
                     priv_imports = Map.empty, priv_source = source,
                     calls = [CreateTexture (Finite (of_nat TEXTURE1)) texture,
                              PixelStoreiFlipY True, TexImage2D source]\<rparr>"
    obtain r1 this1 where r1: "registerProgram env ?fresh ''~default'' None None = (r1, this1)"
      by (cases "registerProgram env ?fresh ''~default'' None None")
    obtain r2 this2 where r2: "registerBlendPrograms env this1 (blendModeValues env) = (r2, this2)"
      by (cases "registerBlendPrograms env this1 (blendModeValues env)")
    have e1: "r1 \<noteq> Inl SourceNotReady"
      using registerProgram_errors [of env ?fresh "''~default''" None None SourceNotReady]
      unfolding r1 by auto
    have e2: "r2 \<noteq> Inl SourceNotReady"
      using registerBlendPrograms_errors [of env this1 "blendModeValues env" SourceNotReady]
      unfolding r2 by auto
    from failed ready e1 e2 r1 r2 show False
      unfolding new_GlueTexture_def Let_def
      by (auto simp: program_def checkDisposed_def dest: glueGetSourceDimensions_error
          split: sum.splits prod.splits property.splits if_splits)
  qed
next
  assume "\<not> glueIsSourceLoaded source"
  then show "new_GlueTexture env texture source = Inl SourceNotReady"
    by (simp add: new_GlueTexture_def)
qed

lemma update_SourceNotReady:
  "fst (update t source) = Inl SourceNotReady \<Longrightarrow> \<not> glueIsSourceLoaded source"
  by (auto simp: update_def reupload_def checkDisposed_def dest: glueGetSourceDimensions_error
      split: option.splits sum.splits prod.splits if_splits)

lemma not_loaded_cases:
  assumes "\<not> glueIsSourceLoaded source"
  shows "source = None
     \<or> (\<exists>isComplete naturalWidth naturalHeight.
           source = Some (HTMLImageElement isComplete naturalWidth naturalHeight)
           \<and> (\<not> isComplete \<or> naturalHeight = 0))
     \<or> (\<exists>readyState videoWidth videoHeight.
           source = Some (HTMLVideoElement readyState videoWidth videoHeight) \<and> readyState \<le> 2)"
  using assms by (cases source rule: glueIsSourceLoaded.cases) auto

text \<open>
  Claim C10. \<^verbatim>\<open>glueIsSourceLoaded\<close> is false for \<^verbatim>\<open>null\<close> or \<^verbatim>\<open>undefined\<close> and true for every
  canvas and for every object that is neither an image nor a video; so the constructor
  and \<^verbatim>\<open>update\<close> throw \<open>SourceNotReady\<close> only for an absent source, an image that is not
  complete or has natural height 0, or a video with \<^verbatim>\<open>readyState\<close> at most 2, and never for a
  canvas.
\<close>

theorem C10_source_readiness:
  "glueIsSourceLoaded None = False
   \<and> glueIsSourceLoaded (Some (HTMLCanvasElement width height)) = True
   \<and> (\<forall>s. (\<forall>c w h. s \<noteq> HTMLImageElement c w h) \<and> (\<forall>r w h. s \<noteq> HTMLVideoElement r w h)
          \<longrightarrow> glueIsSourceLoaded (Some s) = True)
   \<and> (new_GlueTexture env texture source = Inl SourceNotReady
        \<or> fst (update t source) = Inl SourceNotReady \<longrightarrow>
        source = None
        \<or> (\<exists>isComplete naturalWidth naturalHeight.
              source = Some (HTMLImageElement isComplete naturalWidth naturalHeight)
              \<and> (\<not> isComplete \<or> naturalHeight = 0))
        \<or> (\<exists>readyState videoWidth videoHeight.
              source = Some (HTMLVideoElement readyState videoWidth videoHeight)
              \<and> readyState \<le> 2))
   \<and> new_GlueTexture env texture (Some (HTMLCanvasElement width height)) \<noteq> Inl SourceNotReady
   \<and> fst (update t (Some (HTMLCanvasElement width height))) \<noteq> Inl SourceNotReady"
proof -
  have other: "\<forall>s. (\<forall>c w h. s \<noteq> HTMLImageElement c w h) \<and> (\<forall>r w h. s \<noteq> HTMLVideoElement r w h)
          \<longrightarrow> glueIsSourceLoaded (Some s) = True"
  proof (intro allI impI)
    fix s assume "(\<forall>c w h. s \<noteq> HTMLImageElement c w h) \<and> (\<forall>r w h. s \<noteq> HTMLVideoElement r w h)"
    then show "glueIsSourceLoaded (Some s) = True"
      by (cases s) (blast, blast, simp_all)
  qed
  have only: "new_GlueTexture env texture source = Inl SourceNotReady
        \<or> fst (update t source) = Inl SourceNotReady \<longrightarrow>
        source = None
        \<or> (\<exists>isComplete naturalWidth naturalHeight.
              source = Some (HTMLImageElement isComplete naturalWidth naturalHeight)
              \<and> (\<not> isComplete \<or> naturalHeight = 0))
        \<or> (\<exists>readyState videoWidth videoHeight.
              source = Some (HTMLVideoElement readyState videoWidth videoHeight)
              \<and> readyState \<le> 2)"
    using new_GlueTexture_SourceNotReady [of env texture source] update_SourceNotReady [of t source]
      not_loaded_cases [of source]
    by blast
  have canvas: "new_GlueTexture env texture (Some (HTMLCanvasElement width height)) \<noteq> Inl SourceNotReady"
    "fst (update t (Some (HTMLCanvasElement width height))) \<noteq> Inl SourceNotReady"
    using new_GlueTexture_SourceNotReady [of env texture "Some (HTMLCanvasElement width height)"]
      update_SourceNotReady [of t "Some (HTMLCanvasElement width height)"]
    by auto
  show ?thesis
    using other only canvas by simp
qed

theorem C10_source_readiness_witness:
  "new_GlueTexture exampleSources 7 (Some (HTMLVideoElement 2 640 480)) = Inl SourceNotReady
   \<and> fst (update exampleTexture (Some (HTMLVideoElement 2 640 480))) = Inl SourceNotReady
   \<and> (\<exists>readyState videoWidth videoHeight.
         Some (HTMLVideoElement 2 640 480)
           = Some (HTMLVideoElement readyState videoWidth videoHeight) \<and> readyState \<le> 2)
   \<and> glueIsSourceLoaded (Some OtherObject)
   \<and> new_GlueTexture exampleSources 7 (Some (HTMLCanvasElement 0 0)) \<noteq> Inl SourceNotReady"
proof -
  have a: "new_GlueTexture exampleSources 7 (Some (HTMLVideoElement 2 640 480)) = Inl SourceNotReady"
    by (simp add: new_GlueTexture_def)
  have b: "fst (update exampleTexture (Some (HTMLVideoElement 2 640 480))) = Inl SourceNotReady"
    by (simp add: update_def checkDisposed_def exampleTexture_def)
  note claim = C10_source_readiness [of 0 0 exampleSources 7 "Some (HTMLVideoElement 2 640 480)"
      exampleTexture]
  have c: "\<exists>readyState videoWidth videoHeight.
         Some (HTMLVideoElement 2 640 480)
           = Some (HTMLVideoElement readyState videoWidth videoHeight) \<and> readyState \<le> 2"
    using claim a by simp
  have d: "glueIsSourceLoaded (Some OtherObject)"
    using claim by simp
  have e: "new_GlueTexture exampleSources 7 (Some (HTMLCanvasElement 0 0)) \<noteq> Inl SourceNotReady"
    using claim by simp
  show ?thesis
    using a b c d e by simp
qed

end
